theory Spec2Isabelle
  imports Main "HOL-Library.Word"
begin

section \<open>Loadable commands: the data of cmLoadCommandCommand.cxx\<close>

text \<open>
  The file holds four pieces: the signal guard (\<open>TrapsForSignals\<close>,
  \<open>SignalHandlerGuard\<close>), the owner of a plugin's function table
  (\<open>LoadedCommandImpl\<close>), the command object the host calls
  (\<open>cmLoadedCommand\<close>) and the \<open>load_command\<close> directive
  (\<open>cmLoadCommandCommand::InitialPass\<close>). Process state they touch (the signal
  table, the global \<open>LastName\<close>, the C heap, the reference-counted table owners, the
  makefile's definitions and final actions, the command registry) is one record that every
  operation takes and returns.
\<close>

type_synonym addr = nat
type_synonym fnptr = nat
type_synonym libhandle = nat
type_synonym cheap = "addr \<rightharpoonup> string"
type_synonym defs = "string \<rightharpoonup> string"

datatype signal_id = SIGSEGV | SIGBUS | SIGILL

text \<open>A handler as \<open>signal()\<close> takes it: the null pointer the guard's destructor passes,
  the function \<open>TrapsForSignals\<close>, or some other handler of the host's.\<close>

datatype sighandler = NullHandler | TrapsHandler | HostHandler nat

text \<open>The fields of \<open>cmLoadedCommandInfo\<close> the file reads. A function pointer is the
  address of foreign code, absent when null; \<open>Error\<close> is a \<open>char*\<close> into the C heap.\<close>

record cmLoadedCommandInfo =
  InitialPass :: "fnptr option"
  FinalPass :: "fnptr option"
  Destructor :: "fnptr option"
  Name :: "string option"
  Error :: "addr option"

text \<open>\<open>cmCommand\<close> keeps the error text \<open>SetError\<close> stores; a \<open>cmLoadedCommand\<close> adds
  the \<open>std::shared_ptr<LoadedCommandImpl>\<close>, the index of a control block or null.\<close>

record cmCommand =
  CommandError :: string

record cmLoadedCommand = cmCommand +
  Impl :: "nat option"

datatype call_kind = InitCall | InitialPassCall | FinalPassCall | DestructorCall

text \<open>What a run leaves behind, in order: every call into foreign code with the handlers
  of SIGSEGV, SIGBUS and SIGILL and the value of \<open>LastName\<close> at that moment, every symbol
  lookup, every change of a definition.\<close>

datatype event =
    Called call_kind fnptr "sighandler list" "string option"
  | Lookup libhandle string
  | Removed string
  | Added string string

record world =
  cheap_of :: cheap
  impls :: "nat \<rightharpoonup> cmLoadedCommandInfo \<times> nat"
  next_impl :: nat
  handlers :: "signal_id \<Rightarrow> sighandler"
  LastName :: "string option"
  diagnostics :: "(string option \<times> signal_id) list"
  Definitions :: defs
  FinalActions :: "nat list"
  ScriptedCommands :: "(string \<times> cmLoadedCommand) list"
  trace :: "event list"

text \<open>Undefined behaviour of the C++ is a value: releasing or reading a block that is not
  live, dereferencing a null \<open>Impl\<close>, calling a null function pointer. The world is the
  one in which it was reached.\<close>

datatype fault = BadFree addr | BadRead addr | NoImpl | NullFunction

datatype 'a result = Ok 'a world | UB fault world

text \<open>Everything the file calls and does not define: whether \<open>SIGBUS\<close> is defined, the
  path and loader primitives of \<open>cmSystemTools\<close> and \<open>cmsys::DynamicLoader\<close>, and the
  foreign code behind each function pointer. Foreign code receives the table (\<open>this\<close>)
  and works on the C heap; the two passes also receive the makefile, whose definitions the
  plugin API lets them change. A guarded call also yields the signals that were raised
  while it ran.\<close>

record platform =
  sigbus_defined :: bool
  ExpandRegistryValues :: "string \<Rightarrow> string"
  GlobDirs :: "string \<Rightarrow> string list"
  FileExists :: "string \<Rightarrow> bool"
  OpenLibrary :: "string \<Rightarrow> libhandle option"
  LastError :: "string \<Rightarrow> string option"
  GetSymbolAddress :: "libhandle \<Rightarrow> string \<Rightarrow> fnptr option"
  run_init :: "fnptr \<Rightarrow> cmLoadedCommandInfo \<Rightarrow> cheap \<Rightarrow> cmLoadedCommandInfo \<times> cheap"
  run_InitialPass :: "fnptr \<Rightarrow> cmLoadedCommandInfo \<Rightarrow> cheap \<Rightarrow> defs \<Rightarrow> string list
    \<Rightarrow> 32 word \<times> cmLoadedCommandInfo \<times> cheap \<times> defs \<times> signal_id list"
  run_FinalPass :: "fnptr \<Rightarrow> cmLoadedCommandInfo \<Rightarrow> cheap \<Rightarrow> defs
    \<Rightarrow> cmLoadedCommandInfo \<times> cheap \<times> defs \<times> signal_id list"
  run_Destructor :: "fnptr \<Rightarrow> cmLoadedCommandInfo \<Rightarrow> cheap
    \<Rightarrow> cmLoadedCommandInfo \<times> cheap \<times> signal_id list"

section \<open>Sequencing\<close>

definition rbind :: "'a result \<Rightarrow> ('a \<Rightarrow> world \<Rightarrow> 'b result) \<Rightarrow> 'b result" where
  "rbind r k = (case r of Ok x w \<Rightarrow> k x w | UB f w \<Rightarrow> UB f w)"

definition world_of :: "'a result \<Rightarrow> world" where
  "world_of r = (case r of Ok x w \<Rightarrow> w | UB f w \<Rightarrow> w)"

section \<open>The C heap\<close>

text \<open>\<open>free(p)\<close>: the block stops being live; the caller's pointer keeps its value.\<close>

definition c_free :: "addr \<Rightarrow> world \<Rightarrow> unit result" where
  "c_free a w =
     (if cheap_of w a = None then UB (BadFree a) w
      else Ok () (w\<lparr>cheap_of := (cheap_of w)(a := None)\<rparr>))"

text \<open>\<open>strdup(s.c_str())\<close>: the copy ends at the first NUL.\<close>

definition strdup_c_str :: "string \<Rightarrow> string" where
  "strdup_c_str s = takeWhile (\<lambda>c. c \<noteq> CHR 0x00) s"

section \<open>The signal guard\<close>

definition signal_set :: "signal_id \<Rightarrow> sighandler \<Rightarrow> world \<Rightarrow> world" where
  "signal_set sig h w = w\<lparr>handlers := (handlers w)(sig := h)\<rparr>"

text \<open>\<open>TrapsForSignals\<close> prints one line to stderr; the line is kept as the pair of the
  name and the signal it is formatted from.\<close>

definition TrapsForSignals :: "signal_id \<Rightarrow> world \<Rightarrow> world" where
  "TrapsForSignals sig w = w\<lparr>diagnostics := diagnostics w @ [(LastName w, sig)]\<rparr>"

text \<open>A signal raised during a call runs \<open>TrapsForSignals\<close> when that is its handler, and
  the call goes on; what any other handler does is not this file's.\<close>

definition raise_signal :: "signal_id \<Rightarrow> world \<Rightarrow> world" where
  "raise_signal sig w =
     (if handlers w sig = TrapsHandler then TrapsForSignals sig w else w)"

definition SignalHandlerGuard_enter :: "platform \<Rightarrow> string option \<Rightarrow> world \<Rightarrow> world" where
  "SignalHandlerGuard_enter P name w =
     (let w1 = w\<lparr>LastName := Some (case name of None \<Rightarrow> ''????'' | Some n \<Rightarrow> n)\<rparr>;
          w2 = signal_set SIGSEGV TrapsHandler w1;
          w3 = (if sigbus_defined P then signal_set SIGBUS TrapsHandler w2 else w2)
      in signal_set SIGILL TrapsHandler w3)"

definition SignalHandlerGuard_leave :: "platform \<Rightarrow> world \<Rightarrow> world" where
  "SignalHandlerGuard_leave P w =
     (let w1 = signal_set SIGSEGV NullHandler w;
          w2 = (if sigbus_defined P then signal_set SIGBUS NullHandler w1 else w1)
      in signal_set SIGILL NullHandler w2)"

definition guard_view :: "world \<Rightarrow> sighandler list" where
  "guard_view w = map (handlers w) [SIGSEGV, SIGBUS, SIGILL]"

section \<open>LoadedCommandImpl\<close>

text \<open>The constructor: every pointer of the table null, then \<open>init(this)\<close>, called as it
  stands. \<open>std::make_shared\<close> puts the object in a fresh control block with use count 1.\<close>

definition LoadedCommandImpl_new :: "platform \<Rightarrow> fnptr \<Rightarrow> world \<Rightarrow> nat \<times> world" where
  "LoadedCommandImpl_new P init w =
     (let info0 = \<lparr>InitialPass = None, FinalPass = None, Destructor = None,
                    Name = None, Error = None\<rparr>;
          (info, h) = run_init P init info0 (cheap_of w);
          i = next_impl w
      in (i, w\<lparr>cheap_of := h, impls := (impls w)(i \<mapsto> (info, 1)), next_impl := Suc i,
               trace := trace w @ [Called InitCall init (guard_view w) (LastName w)]\<rparr>))"

definition DoInitialPass :: "platform \<Rightarrow> nat \<Rightarrow> string list \<Rightarrow> world \<Rightarrow> (32 word) result" where
  "DoInitialPass P i argv w =
     (case impls w i of
        None \<Rightarrow> UB NoImpl w
      | Some (info, n) \<Rightarrow>
          let g = SignalHandlerGuard_enter P (Name info) w in
          (case InitialPass info of
             None \<Rightarrow> UB NullFunction g
           | Some f \<Rightarrow>
               let (rc, info', h, d, raised) =
                     run_InitialPass P f info (cheap_of g) (Definitions g) argv;
                   g1 = g\<lparr>cheap_of := h, impls := (impls g)(i \<mapsto> (info', n)),
                          Definitions := d,
                          trace := trace g @ [Called InitialPassCall f (guard_view g) (LastName g)]\<rparr>
               in Ok rc (SignalHandlerGuard_leave P (fold raise_signal raised g1))))"

definition DoFinalPass :: "platform \<Rightarrow> nat \<Rightarrow> world \<Rightarrow> unit result" where
  "DoFinalPass P i w =
     (case impls w i of
        None \<Rightarrow> UB NoImpl w
      | Some (info, n) \<Rightarrow>
          let g = SignalHandlerGuard_enter P (Name info) w in
          (case FinalPass info of
             None \<Rightarrow> UB NullFunction g
           | Some f \<Rightarrow>
               let (info', h, d, raised) =
                     run_FinalPass P f info (cheap_of g) (Definitions g);
                   g1 = g\<lparr>cheap_of := h, impls := (impls g)(i \<mapsto> (info', n)),
                          Definitions := d,
                          trace := trace g @ [Called FinalPassCall f (guard_view g) (LastName g)]\<rparr>
               in Ok () (SignalHandlerGuard_leave P (fold raise_signal raised g1))))"

text \<open>The destructor: the teardown entry point under the guard when the table has one,
  then the error buffer; the release of the control block follows.\<close>

definition teardown :: "platform \<Rightarrow> nat \<Rightarrow> world \<Rightarrow> world" where
  "teardown P i w =
     (case impls w i of
        None \<Rightarrow> w
      | Some (info, n) \<Rightarrow>
          (case Destructor info of
             None \<Rightarrow> w
           | Some f \<Rightarrow>
               let g = SignalHandlerGuard_enter P (Name info) w;
                   (info', h, raised) = run_Destructor P f info (cheap_of g);
                   g1 = g\<lparr>cheap_of := h, impls := (impls g)(i \<mapsto> (info', n)),
                          trace := trace g @
                            [Called DestructorCall f (guard_view g) (LastName g)]\<rparr>
               in SignalHandlerGuard_leave P (fold raise_signal raised g1)))"

definition LoadedCommandImpl_delete :: "platform \<Rightarrow> nat \<Rightarrow> world \<Rightarrow> unit result" where
  "LoadedCommandImpl_delete P i w =
     (let w1 = teardown P i w
      in (case impls w1 i of
            None \<Rightarrow> UB NoImpl w1
          | Some (info1, n1) \<Rightarrow>
              rbind (case Error info1 of None \<Rightarrow> Ok () w1 | Some a \<Rightarrow> c_free a w1)
                (\<lambda>_ w2. Ok () (w2\<lparr>impls := (impls w2)(i := None)\<rparr>))))"

section \<open>Shared ownership\<close>

text \<open>Copying a \<open>shared_ptr\<close> adds one to the use count of its control block; destroying
  one takes one off, and the holder that takes it to zero deletes the object.\<close>

definition shared_copy :: "nat option \<Rightarrow> world \<Rightarrow> world" where
  "shared_copy r w =
     (case r of
        None \<Rightarrow> w
      | Some i \<Rightarrow>
          (case impls w i of
             None \<Rightarrow> w
           | Some (info, n) \<Rightarrow> w\<lparr>impls := (impls w)(i \<mapsto> (info, Suc n))\<rparr>))"

definition shared_release :: "platform \<Rightarrow> nat option \<Rightarrow> world \<Rightarrow> unit result" where
  "shared_release P r w =
     (case r of
        None \<Rightarrow> Ok () w
      | Some i \<Rightarrow>
          (case impls w i of
             None \<Rightarrow> UB NoImpl w
           | Some (info, n) \<Rightarrow>
               if 1 < n then Ok () (w\<lparr>impls := (impls w)(i \<mapsto> (info, n - 1))\<rparr>)
               else LoadedCommandImpl_delete P i w))"

section \<open>cmLoadedCommand\<close>

definition SetError :: "string \<Rightarrow> 'a cmCommand_scheme \<Rightarrow> 'a cmCommand_scheme" where
  "SetError e c = c\<lparr>CommandError := e\<rparr>"

definition cmLoadedCommand_new :: "platform \<Rightarrow> fnptr \<Rightarrow> world \<Rightarrow> cmLoadedCommand \<times> world" where
  "cmLoadedCommand_new P init w =
     (let (i, w1) = LoadedCommandImpl_new P init w
      in (\<lparr>CommandError = [], Impl = Some i\<rparr>, w1))"

definition Clone :: "cmLoadedCommand \<Rightarrow> world \<Rightarrow> cmLoadedCommand \<times> world" where
  "Clone c w = (\<lparr>CommandError = [], Impl = Impl c\<rparr>, shared_copy (Impl c) w)"

definition cmLoadedCommand_delete :: "platform \<Rightarrow> cmLoadedCommand \<Rightarrow> world \<Rightarrow> unit result" where
  "cmLoadedCommand_delete P c w = shared_release P (Impl c) w"

text \<open>The host clones a command and destroys command objects as it sees fit: \<open>k\<close> clones
  of one command, and the destruction of a list of commands one after the other.\<close>

fun delete_all :: "platform \<Rightarrow> cmLoadedCommand list \<Rightarrow> world \<Rightarrow> unit result" where
  "delete_all P [] w = Ok () w"
| "delete_all P (q # qs) w = rbind (cmLoadedCommand_delete P q w) (\<lambda>_. delete_all P qs)"

fun Clone_n :: "nat \<Rightarrow> cmLoadedCommand \<Rightarrow> world \<Rightarrow> cmLoadedCommand list \<times> world" where
  "Clone_n 0 c w = ([], w)"
| "Clone_n (Suc k) c w =
     (let (q, w1) = Clone c w; (qs, w2) = Clone_n k c w1 in (q # qs, w2))"

text \<open>Modelled from the spec: \<open>cmMakefile::AddFinalAction\<close> is not in the file. The
  deferred action goes to the end of the execution context's list; it is the closure that
  captured \<open>impl\<close>, kept as that pointer.\<close>

definition AddFinalAction :: "nat \<Rightarrow> world \<Rightarrow> world" where
  "AddFinalAction i w = w\<lparr>FinalActions := FinalActions w @ [i]\<rparr>"

text \<open>The closure \<open>[impl](cmMakefile& makefile) { impl->DoFinalPass(&makefile); }\<close>: running
  it, and destroying it, which releases the captured pointer.\<close>

definition FinalAction_run :: "platform \<Rightarrow> nat \<Rightarrow> world \<Rightarrow> unit result" where
  "FinalAction_run P i w = DoFinalPass P i w"

definition FinalAction_discard :: "platform \<Rightarrow> nat \<Rightarrow> world \<Rightarrow> unit result" where
  "FinalAction_discard P i w =
     rbind (shared_release P (Some i) w)
       (\<lambda>_ w1. Ok () (w1\<lparr>FinalActions := remove1 i (FinalActions w1)\<rparr>))"

text \<open>\<open>cmLoadedCommand::InitialPass\<close>. The \<open>argv\<close> array holds a \<open>strdup\<close> copy of each
  argument and is released by \<open>cmFreeArguments\<close> right after the call; the foreign code
  receives the copies as a list. The deferred action captures a copy of \<open>Impl\<close>.\<close>

definition cmLoadedCommand_InitialPass ::
  "platform \<Rightarrow> cmLoadedCommand \<Rightarrow> string list \<Rightarrow> world \<Rightarrow> (bool \<times> cmLoadedCommand) result" where
  "cmLoadedCommand_InitialPass P c args w =
     (case Impl c of
        None \<Rightarrow> UB NoImpl w
      | Some i \<Rightarrow>
          (case impls w i of
             None \<Rightarrow> UB NoImpl w
           | Some (info, n) \<Rightarrow>
               if InitialPass info = None then Ok (True, c) w
               else
                 rbind (case Error info of None \<Rightarrow> Ok () w | Some a \<Rightarrow> c_free a w)
                   (\<lambda>_ w1.
                      rbind (DoInitialPass P i (map strdup_c_str args) w1)
                        (\<lambda>result w2.
                           (case impls w2 i of
                              None \<Rightarrow> UB NoImpl w2
                            | Some (info2, n2) \<Rightarrow>
                                if result \<noteq> 0 then
                                  (if FinalPass info2 \<noteq> None
                                   then Ok (True, c) (AddFinalAction i (shared_copy (Some i) w2))
                                   else Ok (True, c) w2)
                                else
                                  (case Error info2 of
                                     None \<Rightarrow> Ok (False, c) w2
                                   | Some a \<Rightarrow>
                                       (case cheap_of w2 a of
                                          None \<Rightarrow> UB (BadRead a) w2
                                        | Some s \<Rightarrow> Ok (False, SetError s c) w2)))))))"

section \<open>The load directive\<close>

text \<open>Modelled from the spec: the host's variable store is not in the file. A definition
  is set, removed, or read with the empty string for a variable that is not defined.\<close>

definition RemoveDefinition :: "string \<Rightarrow> world \<Rightarrow> world" where
  "RemoveDefinition v w =
     w\<lparr>Definitions := (Definitions w)(v := None), trace := trace w @ [Removed v]\<rparr>"

definition AddDefinition :: "string \<Rightarrow> string \<Rightarrow> world \<Rightarrow> world" where
  "AddDefinition v x w =
     w\<lparr>Definitions := (Definitions w)(v \<mapsto> x), trace := trace w @ [Added v x]\<rparr>"

definition GetRequiredDefinition :: "string \<Rightarrow> world \<Rightarrow> string" where
  "GetRequiredDefinition v w = (case Definitions w v of None \<Rightarrow> [] | Some x \<Rightarrow> x)"

text \<open>Modelled from the spec: \<open>cmSystemTools::FindFile\<close> is not in the file. The search
  path is walked in order; the first directory that holds the file gives the full path, and
  a miss gives the empty string.\<close>

fun FindFile :: "(string \<Rightarrow> bool) \<Rightarrow> string \<Rightarrow> string list \<Rightarrow> string" where
  "FindFile ex name [] = []"
| "FindFile ex name (d # ds) =
     (if ex (d @ ''/'' @ name) then d @ ''/'' @ name else FindFile ex name ds)"

text \<open>Modelled from the spec: \<open>cmState::AddScriptedCommand\<close> is not in the file. The
  registry keeps the command under its name, the newest registration first.\<close>

definition AddScriptedCommand :: "string \<Rightarrow> cmLoadedCommand \<Rightarrow> world \<Rightarrow> world" where
  "AddScriptedCommand name c w = w\<lparr>ScriptedCommands := (name, c) # ScriptedCommands w\<rparr>"

definition GetSymbolAddress_logged ::
  "platform \<Rightarrow> libhandle \<Rightarrow> string \<Rightarrow> world \<Rightarrow> fnptr option \<times> world" where
  "GetSymbolAddress_logged P lib s w =
     (GetSymbolAddress P lib s, w\<lparr>trace := trace w @ [Lookup lib s]\<rparr>)"

definition search_path :: "platform \<Rightarrow> string list \<Rightarrow> string list" where
  "search_path P dirs = foldl (\<lambda>path a. path @ GlobDirs P (ExpandRegistryValues P a)) [] dirs"

definition reportVar_of :: "string \<Rightarrow> string" where
  "reportVar_of name = ''CMAKE_LOADED_COMMAND_'' @ name"

definition moduleName_of :: "string \<Rightarrow> world \<Rightarrow> string" where
  "moduleName_of name w =
     GetRequiredDefinition ''CMAKE_SHARED_MODULE_PREFIX'' w @ ''cm'' @ name @
     GetRequiredDefinition ''CMAKE_SHARED_MODULE_SUFFIX'' w"

definition cmLoadCommandCommand_InitialPass ::
  "platform \<Rightarrow> cmCommand \<Rightarrow> string list \<Rightarrow> world \<Rightarrow> bool \<times> cmCommand \<times> world" where
  "cmLoadCommandCommand_InitialPass P c args w =
     (case args of
        [] \<Rightarrow> (True, c, w)
      | name # dirs \<Rightarrow>
          let reportVar = reportVar_of name;
              w1 = RemoveDefinition reportVar w;
              moduleName = moduleName_of name w1;
              path = search_path P dirs;
              fullPath = FindFile (FileExists P) moduleName path
          in if fullPath = [] then
               (False,
                SetError (''Attempt to load command failed from file '' @
                          [CHR 0x22] @ moduleName @ [CHR 0x22]) c,
                w1)
             else
               (case OpenLibrary P fullPath of
                  None \<Rightarrow>
                    (False,
                     SetError (''Attempt to load the library '' @ fullPath @ '' failed.'' @
                               (case LastError P fullPath of
                                  None \<Rightarrow> []
                                | Some e \<Rightarrow> '' Additional error info is:'' @ [CHR 0x0A] @ e)) c,
                     w1)
                | Some lib \<Rightarrow>
                    let w2 = AddDefinition reportVar fullPath w1;
                        (f1, w3) = GetSymbolAddress_logged P lib (name @ ''Init'') w2;
                        (initFunction, w4) =
                          (case f1 of
                             None \<Rightarrow> GetSymbolAddress_logged P lib (''_'' @ name @ ''Init'') w3
                           | Some f \<Rightarrow> (f1, w3))
                    in (case initFunction of
                          Some init \<Rightarrow>
                            let (cmd, w5) = cmLoadedCommand_new P init w4
                            in (True, c, AddScriptedCommand name cmd w5)
                        | None \<Rightarrow>
                            (False,
                             SetError (''Attempt to load command failed. '' @
                                       ''No init function found.'') c,
                             w4))))"

section \<open>Notions the statements use\<close>

text \<open>The signals the guard handles on this platform, and the signal table with the
  null handler at each of them.\<close>

definition fault_signals :: "platform \<Rightarrow> signal_id list" where
  "fault_signals P = (if sigbus_defined P then [SIGSEGV, SIGBUS, SIGILL] else [SIGSEGV, SIGILL])"

definition reset_handlers ::
  "platform \<Rightarrow> (signal_id \<Rightarrow> sighandler) \<Rightarrow> signal_id \<Rightarrow> sighandler" where
  "reset_handlers P hs = (\<lambda>s. if s \<in> set (fault_signals P) then NullHandler else hs s)"

text \<open>The full path the directive's search gives for a command name, and the symbol
  lookups among the events of a run.\<close>

definition resolved_path :: "platform \<Rightarrow> string \<Rightarrow> string list \<Rightarrow> world \<Rightarrow> string" where
  "resolved_path P name dirs w =
     FindFile (FileExists P) (moduleName_of name w) (search_path P dirs)"

definition lookups_of :: "event list \<Rightarrow> event list" where
  "lookups_of es = filter (\<lambda>e. case e of Lookup l s \<Rightarrow> True | _ \<Rightarrow> False) es"

text \<open>The name of the report variable in the spec's words: the prefix, an underscore and
  the command name, uppercased.\<close>

definition toupper :: "char \<Rightarrow> char" where
  "toupper c =
     (let n = (of_char c :: nat) in if 97 \<le> n \<and> n \<le> 122 then char_of (n - 32) else c)"

definition spec_report_variable :: "string \<Rightarrow> string" where
  "spec_report_variable name = map toupper (''CMAKE_LOADED_COMMAND_'' @ name)"

text \<open>What a guarded call sees: the handlers the guard installed and the tag it stored in
  \<open>LastName\<close>.\<close>

definition guard_tag :: "cmLoadedCommandInfo \<Rightarrow> string" where
  "guard_tag info = (case Name info of None \<Rightarrow> ''????'' | Some n \<Rightarrow> n)"

definition guarded_view :: "platform \<Rightarrow> world \<Rightarrow> sighandler list" where
  "guarded_view P w =
     [TrapsHandler, if sigbus_defined P then TrapsHandler else handlers w SIGBUS, TrapsHandler]"

text \<open>The error pointer of a table is usable when it is null or points to a live block;
  the heap as the immediate pass leaves it after releasing that block.\<close>

definition Error_valid :: "cmLoadedCommandInfo \<Rightarrow> cheap \<Rightarrow> bool" where
  "Error_valid info h = (case Error info of None \<Rightarrow> True | Some a \<Rightarrow> h a \<noteq> None)"

definition cleared_heap :: "cmLoadedCommandInfo \<Rightarrow> cheap \<Rightarrow> cheap" where
  "cleared_heap info h = (case Error info of None \<Rightarrow> h | Some a \<Rightarrow> h(a := None))"

text \<open>How many times a teardown entry point was called in a run.\<close>

definition teardowns :: "event list \<Rightarrow> nat" where
  "teardowns es =
     length (filter (\<lambda>e. case e of Called k f hs t \<Rightarrow> k = DestructorCall | _ \<Rightarrow> False) es)"

section \<open>A plugin to run the model on\<close>

text \<open>A library \<open>plugins/libcmFoo.so\<close> exporting \<open>FooInit\<close>. Its table has all three entry
  points. Its immediate pass fails with the error text \<open>bad arg\<close> on two arguments, fails
  without touching the error buffer on none, and succeeds otherwise.\<close>

definition Foo_platform :: platform where
  "Foo_platform =
     \<lparr>sigbus_defined = True,
      ExpandRegistryValues = (\<lambda>s. s),
      GlobDirs = (\<lambda>s. [s]),
      FileExists = (\<lambda>f. f = ''plugins/libcmFoo.so''),
      OpenLibrary = (\<lambda>f. if f = ''plugins/libcmFoo.so'' then Some 1 else None),
      LastError = (\<lambda>f. None),
      GetSymbolAddress = (\<lambda>lib s. if s = ''FooInit'' then Some 10 else None),
      run_init = (\<lambda>f info h.
        (info\<lparr>InitialPass := Some 11, FinalPass := Some 12, Destructor := Some 13,
              Name := Some ''Foo''\<rparr>, h)),
      run_InitialPass = (\<lambda>f info h d argv.
        if length argv = 2 then (0, info\<lparr>Error := Some 0\<rparr>, h(0 \<mapsto> ''bad arg''), d, [])
        else if argv = [] then (0, info, h, d, [])
        else (1, info, h, d, [])),
      run_FinalPass = (\<lambda>f info h d. (info, h, d, [])),
      run_Destructor = (\<lambda>f info h. (info, h, [SIGSEGV]))\<rparr>"

definition world0 :: world where
  "world0 =
     \<lparr>cheap_of = Map.empty, impls = Map.empty, next_impl = 0,
      handlers = (\<lambda>s. NullHandler), LastName = None, diagnostics = [],
      Definitions = [''CMAKE_SHARED_MODULE_PREFIX'' \<mapsto> ''lib'',
                     ''CMAKE_SHARED_MODULE_SUFFIX'' \<mapsto> ''.so''],
      FinalActions = [], ScriptedCommands = [], trace = []\<rparr>"

definition Foo_info :: cmLoadedCommandInfo where
  "Foo_info = \<lparr>InitialPass = Some 11, FinalPass = Some 12, Destructor = Some 13,
               Name = Some ''Foo'', Error = None\<rparr>"

text \<open>The world once \<open>Foo\<close> is loaded and one command object holds its table; and the same
  with a handler of the host's installed for every signal.\<close>

definition Foo_world :: world where
  "Foo_world = world0\<lparr>impls := [0 \<mapsto> (Foo_info, 1)], next_impl := 1\<rparr>"

definition hosted_world :: world where
  "hosted_world = Foo_world\<lparr>handlers := (\<lambda>s. HostHandler 7)\<rparr>"

text \<open>The same library exporting no initializer at all.\<close>

definition Bar_platform :: platform where
  "Bar_platform = Foo_platform\<lparr>GetSymbolAddress := (\<lambda>lib s. None)\<rparr>"

text \<open>Three runs of the directive from the empty world: \<open>Foo\<close> from the directory that holds
  its library, the same against the library without initializer, and \<open>Foo\<close> from a
  directory that does not hold it.\<close>

definition Foo_load :: "bool \<times> cmCommand \<times> world" where
  "Foo_load = cmLoadCommandCommand_InitialPass Foo_platform \<lparr>CommandError = []\<rparr>
                [''Foo'', ''plugins''] world0"

definition Bar_load :: "bool \<times> cmCommand \<times> world" where
  "Bar_load = cmLoadCommandCommand_InitialPass Bar_platform \<lparr>CommandError = []\<rparr>
                [''Foo'', ''plugins''] world0"

definition Foo_load_elsewhere :: "bool \<times> cmCommand \<times> world" where
  "Foo_load_elsewhere = cmLoadCommandCommand_InitialPass Foo_platform \<lparr>CommandError = []\<rparr>
                [''Foo'', ''elsewhere''] world0"

text \<open>A command object on the loaded table, and two calls of its immediate pass one after
  the other: the first with two arguments, the second with none.\<close>

definition Foo_cmd :: cmLoadedCommand where
  "Foo_cmd = \<lparr>CommandError = [], Impl = Some 0\<rparr>"

definition first_call :: "(bool \<times> cmLoadedCommand) result" where
  "first_call = cmLoadedCommand_InitialPass Foo_platform Foo_cmd [''a'', ''b''] Foo_world"

definition second_call :: "(bool \<times> cmLoadedCommand) result" where
  "second_call = cmLoadedCommand_InitialPass Foo_platform Foo_cmd [] (world_of first_call)"

text \<open>After the first call, a call that succeeds, and the same call once more.\<close>

definition succeeding_call :: "(bool \<times> cmLoadedCommand) result" where
  "succeeding_call =
     cmLoadedCommand_InitialPass Foo_platform Foo_cmd [''x''] (world_of first_call)"

definition third_call :: "(bool \<times> cmLoadedCommand) result" where
  "third_call =
     cmLoadedCommand_InitialPass Foo_platform Foo_cmd [''x''] (world_of succeeding_call)"

text \<open>A table without an immediate-pass entry point.\<close>

definition Quiet_world :: world where
  "Quiet_world =
     world0\<lparr>impls := [0 \<mapsto> (Foo_info\<lparr>InitialPass := None\<rparr>, 1)], next_impl := 1\<rparr>"

text \<open>The world after an immediate pass of \<open>Foo\<close> that succeeds and schedules the
  deferred pass.\<close>

definition scheduled_world :: world where
  "scheduled_world = world_of (cmLoadedCommand_InitialPass Foo_platform Foo_cmd [''x''] Foo_world)"

section \<open>Facts\<close>

lemma rbind_Ok: "rbind (Ok x w) k = k x w"
  by (simp add: rbind_def)

lemma rbind_UB: "rbind (UB f w) k = UB f w"
  by (simp add: rbind_def)

subsection \<open>The guard and the signal table\<close>

lemma handlers_fold_raise: "handlers (fold raise_signal sigs w) = handlers w"
  by (induction sigs arbitrary: w) (simp_all add: raise_signal_def TrapsForSignals_def)

lemma impls_fold_raise: "impls (fold raise_signal sigs w) = impls w"
  by (induction sigs arbitrary: w) (simp_all add: raise_signal_def TrapsForSignals_def)

lemma handlers_leave:
  "handlers (SignalHandlerGuard_leave P w) = reset_handlers P (handlers w)"
  by (auto simp: SignalHandlerGuard_leave_def signal_set_def reset_handlers_def
      fault_signals_def Let_def)

lemma impls_leave: "impls (SignalHandlerGuard_leave P w) = impls w"
  by (simp add: SignalHandlerGuard_leave_def signal_set_def Let_def)

lemma handlers_enter_reset:
  "reset_handlers P (handlers (SignalHandlerGuard_enter P name w)) = reset_handlers P (handlers w)"
  by (auto simp: SignalHandlerGuard_enter_def signal_set_def reset_handlers_def
      fault_signals_def Let_def)

lemma handlers_teardown:
  "impls w i = Some (info, n) \<Longrightarrow> Destructor info = Some f \<Longrightarrow>
   handlers (teardown P i w) = reset_handlers P (handlers w)"
  by (simp add: teardown_def Let_def handlers_leave handlers_fold_raise handlers_enter_reset
      split: prod.splits)

lemma handlers_delete:
  "handlers (world_of (LoadedCommandImpl_delete P i w)) = handlers (teardown P i w)"
  by (simp add: LoadedCommandImpl_delete_def Let_def world_of_def rbind_def c_free_def
      split: option.splits prod.splits)

lemma hosted_world_impl: "impls hosted_world 0 = Some (Foo_info, 1)"
  by (simp add: hosted_world_def Foo_world_def world0_def)


subsection \<open>The load directive, case by case\<close>

lemma spec_report_variable_Foo: "spec_report_variable ''Foo'' = ''CMAKE_LOADED_COMMAND_FOO''"
  by code_simp

lemma moduleName_of_Remove:
  "moduleName_of name (RemoveDefinition (reportVar_of name) w) = moduleName_of name w"
  by (simp add: moduleName_of_def RemoveDefinition_def GetRequiredDefinition_def reportVar_of_def)

lemma moduleName_of_Remove':
  "moduleName_of name (w\<lparr>Definitions := (Definitions w)(reportVar_of name := None), trace := t\<rparr>)
     = moduleName_of name w"
  by (simp add: moduleName_of_def GetRequiredDefinition_def reportVar_of_def)

lemma FindFile_empty_iff:
  "FindFile ex name path = [] \<longleftrightarrow> (\<forall>d \<in> set path. \<not> ex (d @ ''/'' @ name))"
  by (induction path) auto

lemma load_miss:
  "resolved_path P name dirs w = [] \<Longrightarrow>
   cmLoadCommandCommand_InitialPass P c (name # dirs) w =
     (False,
      SetError (''Attempt to load command failed from file '' @ [CHR 0x22] @
                moduleName_of name w @ [CHR 0x22]) c,
      RemoveDefinition (reportVar_of name) w)"
  by (simp add: cmLoadCommandCommand_InitialPass_def resolved_path_def Let_def
      moduleName_of_Remove)

lemma load_open_fail:
  "resolved_path P name dirs w = p \<Longrightarrow> p \<noteq> [] \<Longrightarrow> OpenLibrary P p = None \<Longrightarrow>
   cmLoadCommandCommand_InitialPass P c (name # dirs) w =
     (False,
      SetError (''Attempt to load the library '' @ p @ '' failed.'' @
                (case LastError P p of None \<Rightarrow> []
                 | Some e \<Rightarrow> '' Additional error info is:'' @ [CHR 0x0A] @ e)) c,
      RemoveDefinition (reportVar_of name) w)"
  by (simp add: cmLoadCommandCommand_InitialPass_def resolved_path_def Let_def
      moduleName_of_Remove)

lemma load_no_symbol:
  "resolved_path P name dirs w = p \<Longrightarrow> p \<noteq> [] \<Longrightarrow> OpenLibrary P p = Some lib \<Longrightarrow>
   GetSymbolAddress P lib (name @ ''Init'') = None \<Longrightarrow>
   GetSymbolAddress P lib (''_'' @ name @ ''Init'') = None \<Longrightarrow>
   cmLoadCommandCommand_InitialPass P c (name # dirs) w =
     (False,
      SetError ''Attempt to load command failed. No init function found.'' c,
      (AddDefinition (reportVar_of name) p
         (RemoveDefinition (reportVar_of name) w))
       \<lparr>trace := trace w @ [Removed (reportVar_of name),
                            Added (reportVar_of name) p,
                            Lookup lib (name @ ''Init''),
                            Lookup lib (''_'' @ name @ ''Init'')]\<rparr>)"
  by (simp add: cmLoadCommandCommand_InitialPass_def resolved_path_def Let_def
      moduleName_of_Remove' GetSymbolAddress_logged_def AddDefinition_def RemoveDefinition_def)

lemma load_canonical:
  "resolved_path P name dirs w = p \<Longrightarrow> p \<noteq> [] \<Longrightarrow> OpenLibrary P p = Some lib \<Longrightarrow>
   GetSymbolAddress P lib (name @ ''Init'') = Some f \<Longrightarrow>
   cmLoadCommandCommand_InitialPass P c (name # dirs) w =
     (let w4 = (AddDefinition (reportVar_of name) p
                 (RemoveDefinition (reportVar_of name) w))
               \<lparr>trace := trace w @ [Removed (reportVar_of name),
                                    Added (reportVar_of name) p,
                                    Lookup lib (name @ ''Init'')]\<rparr>;
          (cmd, w5) = cmLoadedCommand_new P f w4
      in (True, c, AddScriptedCommand name cmd w5))"
  by (simp add: cmLoadCommandCommand_InitialPass_def resolved_path_def Let_def
      moduleName_of_Remove' GetSymbolAddress_logged_def AddDefinition_def RemoveDefinition_def)

lemma load_alternate:
  "resolved_path P name dirs w = p \<Longrightarrow> p \<noteq> [] \<Longrightarrow> OpenLibrary P p = Some lib \<Longrightarrow>
   GetSymbolAddress P lib (name @ ''Init'') = None \<Longrightarrow>
   GetSymbolAddress P lib (''_'' @ name @ ''Init'') = Some f \<Longrightarrow>
   cmLoadCommandCommand_InitialPass P c (name # dirs) w =
     (let w4 = (AddDefinition (reportVar_of name) p
                 (RemoveDefinition (reportVar_of name) w))
               \<lparr>trace := trace w @ [Removed (reportVar_of name),
                                    Added (reportVar_of name) p,
                                    Lookup lib (name @ ''Init''),
                                    Lookup lib (''_'' @ name @ ''Init'')]\<rparr>;
          (cmd, w5) = cmLoadedCommand_new P f w4
      in (True, c, AddScriptedCommand name cmd w5))"
  by (simp add: cmLoadCommandCommand_InitialPass_def resolved_path_def Let_def
      moduleName_of_Remove' GetSymbolAddress_logged_def AddDefinition_def RemoveDefinition_def)

lemma cmLoadedCommand_new_frame:
  "cmLoadedCommand_new P f w = (cmd, w') \<Longrightarrow>
   Definitions w' = Definitions w \<and> ScriptedCommands w' = ScriptedCommands w \<and>
   trace w' = trace w @ [Called InitCall f (guard_view w) (LastName w)] \<and>
   handlers w' = handlers w \<and> Impl cmd = Some (next_impl w) \<and>
   (\<exists>info. impls w' = (impls w)(next_impl w \<mapsto> (info, 1)))"
  by (auto simp: cmLoadedCommand_new_def LoadedCommandImpl_new_def Let_def split: prod.splits)


lemma load_found_cases:
  assumes "resolved_path P name dirs w = p" "p \<noteq> []" "OpenLibrary P p = Some lib"
  obtains
    (neither) "GetSymbolAddress P lib (name @ ''Init'') = None"
              "GetSymbolAddress P lib (''_'' @ name @ ''Init'') = None"
  | (found) f cmd w5 es where
      "GetSymbolAddress P lib (name @ ''Init'') = Some f \<and> es = [] \<or>
       GetSymbolAddress P lib (name @ ''Init'') = None \<and>
       GetSymbolAddress P lib (''_'' @ name @ ''Init'') = Some f \<and>
       es = [Lookup lib (''_'' @ name @ ''Init'')]"
      "cmLoadedCommand_new P f
         ((AddDefinition (reportVar_of name) p (RemoveDefinition (reportVar_of name) w))
          \<lparr>trace := trace w @ [Removed (reportVar_of name), Added (reportVar_of name) p,
                               Lookup lib (name @ ''Init'')] @ es\<rparr>) = (cmd, w5)"
      "cmLoadCommandCommand_InitialPass P c (name # dirs) w =
         (True, c, AddScriptedCommand name cmd w5)"
proof (cases "GetSymbolAddress P lib (name @ ''Init'')")
  case (Some f)
  obtain cmd w5 where n: "cmLoadedCommand_new P f
         ((AddDefinition (reportVar_of name) p (RemoveDefinition (reportVar_of name) w))
          \<lparr>trace := trace w @ [Removed (reportVar_of name), Added (reportVar_of name) p,
                               Lookup lib (name @ ''Init'')] @ []\<rparr>) = (cmd, w5)"
    by (cases "cmLoadedCommand_new P f
         ((AddDefinition (reportVar_of name) p (RemoveDefinition (reportVar_of name) w))
          \<lparr>trace := trace w @ [Removed (reportVar_of name), Added (reportVar_of name) p,
                               Lookup lib (name @ ''Init'')] @ []\<rparr>)") auto
  show ?thesis
    using found [of f "[]" cmd w5] Some n load_canonical [OF assms Some, of c] by simp
next
  case None
  note canon = None
  show ?thesis
  proof (cases "GetSymbolAddress P lib (''_'' @ name @ ''Init'')")
    case None
    then show ?thesis using neither canon by simp
  next
    case (Some f)
    obtain cmd w5 where n: "cmLoadedCommand_new P f
         ((AddDefinition (reportVar_of name) p (RemoveDefinition (reportVar_of name) w))
          \<lparr>trace := trace w @ [Removed (reportVar_of name), Added (reportVar_of name) p,
                               Lookup lib (name @ ''Init'')] @
                               [Lookup lib (''_'' @ name @ ''Init'')]\<rparr>) = (cmd, w5)"
      by (cases "cmLoadedCommand_new P f
         ((AddDefinition (reportVar_of name) p (RemoveDefinition (reportVar_of name) w))
          \<lparr>trace := trace w @ [Removed (reportVar_of name), Added (reportVar_of name) p,
                               Lookup lib (name @ ''Init'')] @
                               [Lookup lib (''_'' @ name @ ''Init'')]\<rparr>)") auto
    show ?thesis
      using found [of f "[Lookup lib (''_'' @ name @ ''Init'')]" cmd w5] Some canon n
        load_alternate [OF assms canon Some, of c] by simp
  qed
qed

lemma load_found_defs:
  assumes "resolved_path P name dirs w = p" "p \<noteq> []" "OpenLibrary P p = Some lib"
  shows "case cmLoadCommandCommand_InitialPass P c (name # dirs) w of (ok, c', w') \<Rightarrow>
     Definitions w' (reportVar_of name) = Some p \<and>
     (\<exists>es. trace w' = trace w @ Removed (reportVar_of name) # es)"
  using assms
proof (cases rule: load_found_cases [where c = c])
  case neither
  then show ?thesis
    using load_no_symbol [OF assms neither, of c]
    by (simp add: AddDefinition_def RemoveDefinition_def SetError_def)
next
  case (found f cmd w5 es)
  from cmLoadedCommand_new_frame [OF found(2)] found(1,3)
  show ?thesis
    by (auto simp: AddScriptedCommand_def AddDefinition_def RemoveDefinition_def)
qed


lemma lookups_of_append: "lookups_of (xs @ ys) = lookups_of xs @ lookups_of ys"
  by (simp add: lookups_of_def)

subsection \<open>The runs of the example\<close>

lemma Foo_moduleName: "moduleName_of ''Foo'' world0 = ''libcmFoo.so''"
  by (simp add: moduleName_of_def GetRequiredDefinition_def world0_def)

lemma Foo_resolved:
  "resolved_path Foo_platform ''Foo'' [''plugins''] world0 = ''plugins/libcmFoo.so''"
  by (simp add: resolved_path_def Foo_moduleName search_path_def Foo_platform_def)

lemma Bar_resolved:
  "resolved_path Bar_platform ''Foo'' [''plugins''] world0 = ''plugins/libcmFoo.so''"
  by (simp add: resolved_path_def Foo_moduleName search_path_def Foo_platform_def Bar_platform_def)

lemma Foo_opens: "OpenLibrary Foo_platform ''plugins/libcmFoo.so'' = Some 1"
  by (simp add: Foo_platform_def)

lemma Bar_opens: "OpenLibrary Bar_platform ''plugins/libcmFoo.so'' = Some 1"
  by (simp add: Foo_platform_def Bar_platform_def)

lemma Bar_symbols: "GetSymbolAddress Bar_platform lib s = None"
  by (simp add: Bar_platform_def)

lemma Foo_symbols: "GetSymbolAddress Foo_platform lib ''FooInit'' = Some 10"
  by (simp add: Foo_platform_def)

lemma Foo_elsewhere:
  "\<forall>d \<in> set (search_path Foo_platform [''elsewhere'']).
     \<not> FileExists Foo_platform (d @ ''/'' @ moduleName_of ''Foo'' world0)"
  by (simp add: Foo_moduleName search_path_def Foo_platform_def)

lemma Foo_elsewhere_resolved:
  "resolved_path Foo_platform ''Foo'' [''elsewhere''] world0 = []"
  by (simp add: resolved_path_def Foo_moduleName search_path_def Foo_platform_def)

lemma Foo_load_ok: "fst (cmLoadCommandCommand_InitialPass Foo_platform \<lparr>CommandError = []\<rparr>
                [''Foo'', ''plugins''] world0)"
  using load_canonical [OF Foo_resolved _ Foo_opens, where f = 10 and c = "\<lparr>CommandError = []\<rparr>"]
  by (simp add: Foo_platform_def Let_def split: prod.splits)


subsection \<open>What the guarded calls change\<close>

lemma enter_frame:
  "cheap_of (SignalHandlerGuard_enter P nm w) = cheap_of w"
  "impls (SignalHandlerGuard_enter P nm w) = impls w"
  "Definitions (SignalHandlerGuard_enter P nm w) = Definitions w"
  "FinalActions (SignalHandlerGuard_enter P nm w) = FinalActions w"
  "ScriptedCommands (SignalHandlerGuard_enter P nm w) = ScriptedCommands w"
  "next_impl (SignalHandlerGuard_enter P nm w) = next_impl w"
  "trace (SignalHandlerGuard_enter P nm w) = trace w"
  "diagnostics (SignalHandlerGuard_enter P nm w) = diagnostics w"
  "LastName (SignalHandlerGuard_enter P nm w) = Some (case nm of None \<Rightarrow> ''????'' | Some n \<Rightarrow> n)"
  "guard_view (SignalHandlerGuard_enter P nm w) = guarded_view P w"
  by (simp_all add: SignalHandlerGuard_enter_def signal_set_def Let_def guard_view_def
      guarded_view_def)

lemma leave_frame:
  "cheap_of (SignalHandlerGuard_leave P w) = cheap_of w"
  "impls (SignalHandlerGuard_leave P w) = impls w"
  "Definitions (SignalHandlerGuard_leave P w) = Definitions w"
  "FinalActions (SignalHandlerGuard_leave P w) = FinalActions w"
  "ScriptedCommands (SignalHandlerGuard_leave P w) = ScriptedCommands w"
  "next_impl (SignalHandlerGuard_leave P w) = next_impl w"
  "trace (SignalHandlerGuard_leave P w) = trace w"
  "diagnostics (SignalHandlerGuard_leave P w) = diagnostics w"
  "LastName (SignalHandlerGuard_leave P w) = LastName w"
  by (simp_all add: SignalHandlerGuard_leave_def signal_set_def Let_def)

lemma raise_frame:
  "cheap_of (fold raise_signal sigs w) = cheap_of w"
  "Definitions (fold raise_signal sigs w) = Definitions w"
  "FinalActions (fold raise_signal sigs w) = FinalActions w"
  "ScriptedCommands (fold raise_signal sigs w) = ScriptedCommands w"
  "next_impl (fold raise_signal sigs w) = next_impl w"
  "trace (fold raise_signal sigs w) = trace w"
  "LastName (fold raise_signal sigs w) = LastName w"
  by (induction sigs arbitrary: w; simp add: raise_signal_def TrapsForSignals_def)+

lemma DoInitialPass_Ok:
  assumes "impls w i = Some (info, n)" "InitialPass info = Some f"
    "run_InitialPass P f info (cheap_of w) (Definitions w) argv = (rc, info', h, d, raised)"
  shows "\<exists>w'. DoInitialPass P i argv w = Ok rc w' \<and>
           impls w' = (impls w)(i \<mapsto> (info', n)) \<and> cheap_of w' = h \<and> Definitions w' = d \<and>
           FinalActions w' = FinalActions w \<and> ScriptedCommands w' = ScriptedCommands w \<and>
           next_impl w' = next_impl w \<and>
           trace w' = trace w @
             [Called InitialPassCall f (guarded_view P w) (Some (guard_tag info))]"
  using assms
  by (simp add: DoInitialPass_def Let_def enter_frame leave_frame raise_frame impls_leave
      impls_fold_raise guard_tag_def)

lemma DoFinalPass_Ok:
  assumes "impls w i = Some (info, n)" "FinalPass info = Some f"
    "run_FinalPass P f info (cheap_of w) (Definitions w) = (info', h, d, raised)"
  shows "\<exists>w'. DoFinalPass P i w = Ok () w' \<and>
           impls w' = (impls w)(i \<mapsto> (info', n)) \<and> cheap_of w' = h \<and> Definitions w' = d \<and>
           FinalActions w' = FinalActions w \<and> ScriptedCommands w' = ScriptedCommands w \<and>
           next_impl w' = next_impl w \<and>
           trace w' = trace w @
             [Called FinalPassCall f (guarded_view P w) (Some (guard_tag info))]"
  using assms
  by (simp add: DoFinalPass_def Let_def enter_frame leave_frame raise_frame impls_leave
      impls_fold_raise guard_tag_def)

lemma teardown_Some:
  assumes "impls w i = Some (info, n)" "Destructor info = Some f"
    "run_Destructor P f info (cheap_of w) = (info', h, raised)"
  shows "impls (teardown P i w) = (impls w)(i \<mapsto> (info', n)) \<and> cheap_of (teardown P i w) = h \<and>
         Definitions (teardown P i w) = Definitions w \<and>
         FinalActions (teardown P i w) = FinalActions w \<and>
         ScriptedCommands (teardown P i w) = ScriptedCommands w \<and>
         next_impl (teardown P i w) = next_impl w \<and>
         trace (teardown P i w) = trace w @
             [Called DestructorCall f (guarded_view P w) (Some (guard_tag info))]"
  using assms
  by (simp add: teardown_def Let_def enter_frame leave_frame raise_frame impls_leave
      impls_fold_raise guard_tag_def)

lemma teardown_None:
  "impls w i = Some (info, n) \<Longrightarrow> Destructor info = None \<Longrightarrow> teardown P i w = w"
  by (simp add: teardown_def)

lemma trace_delete:
  "trace (world_of (LoadedCommandImpl_delete P i w)) = trace (teardown P i w)"
  by (simp add: LoadedCommandImpl_delete_def Let_def world_of_def rbind_def c_free_def
      split: option.splits prod.splits)


lemma clear_error_Ok:
  "Error_valid info (cheap_of w) \<Longrightarrow>
   (case Error info of None \<Rightarrow> Ok () w | Some a \<Rightarrow> c_free a w) =
     Ok () (w\<lparr>cheap_of := cleared_heap info (cheap_of w)\<rparr>)"
  by (auto simp: Error_valid_def cleared_heap_def c_free_def split: option.splits)

lemma Foo_world_impl: "impls Foo_world 0 = Some (Foo_info, 1)"
  by (simp add: Foo_world_def world0_def)

lemma Quiet_world_impl: "impls Quiet_world 0 = Some (Foo_info\<lparr>InitialPass := None\<rparr>, 1)"
  by (simp add: Quiet_world_def world0_def)

lemma Foo_cmd_Impl: "Impl Foo_cmd = Some 0"
  by (simp add: Foo_cmd_def)

lemma Foo_sigbus: "sigbus_defined Foo_platform"
  by (simp add: Foo_platform_def)

lemma Foo_run_InitialPass:
  "run_InitialPass Foo_platform f info h d argv =
     (if length argv = 2 then (0, info\<lparr>Error := Some 0\<rparr>, h(0 \<mapsto> ''bad arg''), d, [])
      else if argv = [] then (0, info, h, d, [])
      else (1, info, h, d, []))"
  by (simp add: Foo_platform_def)

lemma Foo_world_fields:
  "cheap_of Foo_world = Map.empty" "FinalActions Foo_world = []" "trace Foo_world = []"
  "handlers Foo_world = (\<lambda>s. NullHandler)" "LastName Foo_world = None"
  by (simp_all add: Foo_world_def world0_def)


subsection \<open>Reference counts\<close>

lemma Clone_frame:
  assumes "Impl c = Some i" "impls w i = Some (info, m)" "Clone c w = (q, w1)"
  shows "Impl q = Some i \<and> impls w1 = (impls w)(i \<mapsto> (info, Suc m)) \<and> trace w1 = trace w \<and>
         next_impl w1 = next_impl w \<and> FinalActions w1 = FinalActions w \<and>
         cheap_of w1 = cheap_of w"
  using assms by (auto simp: Clone_def shared_copy_def)

lemma Clone_n_frame:
  assumes "Impl c = Some i" "impls w i = Some (info, m)" "Clone_n k c w = (cs, w1)"
  shows "length cs = k \<and> (\<forall>q \<in> set cs. Impl q = Some i) \<and>
         impls w1 i = Some (info, m + k) \<and> (\<forall>j. j \<noteq> i \<longrightarrow> impls w1 j = impls w j) \<and>
         trace w1 = trace w \<and> next_impl w1 = next_impl w \<and> FinalActions w1 = FinalActions w"
  using assms
proof (induction k arbitrary: w m cs w1)
  case 0
  then show ?case by simp
next
  case (Suc k)
  obtain q wa where q: "Clone c w = (q, wa)" by (cases "Clone c w") auto
  obtain qs wb where qs: "Clone_n k c wa = (qs, wb)" by (cases "Clone_n k c wa") auto
  from Clone_frame [OF Suc.prems(1,2) q]
  have a: "Impl q = Some i" "impls wa i = Some (info, Suc m)"
    "impls wa = (impls w)(i \<mapsto> (info, Suc m))" "trace wa = trace w"
    "next_impl wa = next_impl w" "FinalActions wa = FinalActions w"
    by simp_all
  from Suc.IH [OF Suc.prems(1) a(2) qs] Suc.prems(3) q qs a
  show ?case by auto
qed

lemma release_keep:
  "impls w i = Some (info, m) \<Longrightarrow> 1 < m \<Longrightarrow>
   shared_release P (Some i) w = Ok () (w\<lparr>impls := (impls w)(i \<mapsto> (info, m - 1))\<rparr>)"
  by (simp add: shared_release_def)

lemma release_last:
  "impls w i = Some (info, m) \<Longrightarrow> m \<le> 1 \<Longrightarrow>
   shared_release P (Some i) w = LoadedCommandImpl_delete P i w"
  by (simp add: shared_release_def)

lemma delete_all_keep:
  assumes "\<forall>q \<in> set qs. Impl q = Some i" "impls w i = Some (info, m)" "length qs < m"
  shows "\<exists>w2. delete_all P qs w = Ok () w2 \<and> impls w2 i = Some (info, m - length qs) \<and>
           trace w2 = trace w \<and> FinalActions w2 = FinalActions w"
  using assms
proof (induction qs arbitrary: w m)
  case Nil
  then show ?case by simp
next
  case (Cons q qs)
  let ?w1 = "w\<lparr>impls := (impls w)(i \<mapsto> (info, m - 1))\<rparr>"
  have q: "cmLoadedCommand_delete P q w = Ok () ?w1"
    using Cons.prems by (simp add: cmLoadedCommand_delete_def release_keep)
  have "\<exists>w2. delete_all P qs ?w1 = Ok () w2 \<and> impls w2 i = Some (info, (m - 1) - length qs) \<and>
           trace w2 = trace ?w1 \<and> FinalActions w2 = FinalActions ?w1"
    using Cons.prems by (intro Cons.IH) auto
  then show ?case using q by (auto simp: rbind_Ok)
qed

lemma delete_all_append:
  "delete_all P (xs @ ys) w = rbind (delete_all P xs w) (\<lambda>_. delete_all P ys)"
  by (induction xs arbitrary: w) (auto simp: rbind_def split: result.splits)

lemma teardowns_append: "teardowns (xs @ ys) = teardowns xs + teardowns ys"
  by (simp add: teardowns_def)

lemma teardowns_delete:
  assumes "impls w i = Some (info, m)"
  shows "teardowns (trace (world_of (LoadedCommandImpl_delete P i w))) =
           teardowns (trace w) + (if Destructor info = None then 0 else 1)"
proof (cases "Destructor info")
  case None
  then show ?thesis using assms by (simp add: trace_delete teardown_None)
next
  case (Some f)
  obtain info' h raised where "run_Destructor P f info (cheap_of w) = (info', h, raised)"
    using prod_cases3 by blast
  from teardown_Some [OF assms Some this] Some show ?thesis
    by (simp add: trace_delete teardowns_append) (simp add: teardowns_def)
qed

lemma impls_delete_Ok:
  "LoadedCommandImpl_delete P i w = Ok u w3 \<Longrightarrow> impls w3 i = None"
  by (auto simp: LoadedCommandImpl_delete_def Let_def rbind_def c_free_def
      split: option.splits prod.splits if_splits)

lemma delete_all_last:
  assumes "\<forall>q \<in> set qs. Impl q = Some i" "impls w i = Some (info, m)" "length qs = m" "0 < m"
  shows "teardowns (trace (world_of (delete_all P qs w))) =
           teardowns (trace w) + (if Destructor info = None then 0 else 1) \<and>
         (\<forall>w3. delete_all P qs w = Ok () w3 \<longrightarrow> impls w3 i = None)"
proof -
  from assms have ne: "qs \<noteq> []" by auto
  then obtain xs q where qs: "qs = xs @ [q]" by (metis rev_exhaust)
  have xs: "\<forall>q \<in> set xs. Impl q = Some i" "length xs < m" "Impl q = Some i"
    using assms qs by auto
  from delete_all_keep [OF xs(1) assms(2) xs(2), of P] obtain w2 where
    w2: "delete_all P xs w = Ok () w2" "impls w2 i = Some (info, m - length xs)"
        "trace w2 = trace w"
    by auto
  have one: "m - length xs = 1" using assms(3) qs by simp
  have "delete_all P qs w = LoadedCommandImpl_delete P i w2"
    using w2 xs(3) one
    by (simp add: qs delete_all_append rbind_Ok cmLoadedCommand_delete_def
        release_last [where info = info and m = 1] rbind_def split: result.splits)
  then show ?thesis
    using teardowns_delete [of w2 i info "m - length xs" P] w2 impls_delete_Ok [of P i w2]
    by auto
qed

lemma clear_error_cases:
  assumes "(case Error info of None \<Rightarrow> Ok () w | Some a \<Rightarrow> c_free a w) = Ok u w0"
  shows "impls w0 = impls w \<and> FinalActions w0 = FinalActions w \<and> trace w0 = trace w"
  using assms by (auto simp: c_free_def split: option.splits if_splits)

lemma InitialPass_scheduled:
  assumes "Impl c = Some i" "impls w i = Some (info, m)"
    "cmLoadedCommand_InitialPass P c args w = Ok (True, c') w1"
    "FinalActions w1 \<noteq> FinalActions w"
  shows "FinalActions w1 = FinalActions w @ [i] \<and>
         (\<exists>info1 e. impls w1 i = Some (info1, Suc m) \<and> FinalPass info1 \<noteq> None \<and>
                   trace w1 = trace w @ [e] \<and> teardowns [e] = 0)"
proof -
  obtain f where f: "InitialPass info = Some f"
    using assms by (cases "InitialPass info") (auto simp: cmLoadedCommand_InitialPass_def)
  define r0 where "r0 = (case Error info of None \<Rightarrow> Ok () w | Some a \<Rightarrow> c_free a w)"
  have r: "cmLoadedCommand_InitialPass P c args w =
        rbind r0 (\<lambda>_ w1.
          rbind (DoInitialPass P i (map strdup_c_str args) w1)
            (\<lambda>result w2.
               (case impls w2 i of
                  None \<Rightarrow> UB NoImpl w2
                | Some (info2, n2) \<Rightarrow>
                    if result \<noteq> 0 then
                      (if FinalPass info2 \<noteq> None
                       then Ok (True, c) (AddFinalAction i (shared_copy (Some i) w2))
                       else Ok (True, c) w2)
                    else
                      (case Error info2 of
                         None \<Rightarrow> Ok (False, c) w2
                       | Some a \<Rightarrow>
                           (case cheap_of w2 a of
                              None \<Rightarrow> UB (BadRead a) w2
                            | Some s \<Rightarrow> Ok (False, SetError s c) w2)))))"
    using assms(1,2) f by (simp add: cmLoadedCommand_InitialPass_def r0_def)
  obtain u w0 where w0: "r0 = Ok u w0"
    using assms(3) r by (cases r0) (auto simp: rbind_def)
  from clear_error_cases [OF w0 [unfolded r0_def]]
  have fr0: "impls w0 = impls w" "FinalActions w0 = FinalActions w" "trace w0 = trace w"
    by simp_all
  obtain rc info' h d raised where run:
    "run_InitialPass P f info (cheap_of w0) (Definitions w0) (map strdup_c_str args) =
       (rc, info', h, d, raised)"
    using prod_cases5 by blast
  have "impls w0 i = Some (info, m)" using fr0 assms(2) by simp
  from DoInitialPass_Ok [OF this f run] obtain w2 where
    w2: "DoInitialPass P i (map strdup_c_str args) w0 = Ok rc w2"
      "impls w2 = (impls w0)(i \<mapsto> (info', m))" "FinalActions w2 = FinalActions w0"
      "trace w2 = trace w0 @
         [Called InitialPassCall f (guarded_view P w0) (Some (guard_tag info))]"
    by auto
  have res: "Ok (True, c') w1 =
        (if rc \<noteq> 0 then
           (if FinalPass info' \<noteq> None
            then Ok (True, c) (AddFinalAction i (shared_copy (Some i) w2))
            else Ok (True, c) w2)
         else
           (case Error info' of
              None \<Rightarrow> Ok (False, c) w2
            | Some a \<Rightarrow>
                (case cheap_of w2 a of
                   None \<Rightarrow> UB (BadRead a) w2
                 | Some s \<Rightarrow> Ok (False, SetError s c) w2)))"
    using assms(3) r w0 w2 by (simp add: rbind_Ok)
  have sched: "rc \<noteq> 0 \<and> FinalPass info' \<noteq> None"
    using res assms(4) w2(3) fr0(2) by (auto split: if_splits option.splits)
  then have "w1 = AddFinalAction i (shared_copy (Some i) w2)" using res by simp
  then show ?thesis
    using w2 fr0 sched
    by (auto simp: AddFinalAction_def shared_copy_def teardowns_def)
qed

lemma world_of_rbind_discard:
  "trace (world_of (FinalAction_discard P i w)) = trace (world_of (shared_release P (Some i) w))"
  by (simp add: FinalAction_discard_def rbind_def world_of_def split: result.splits)

lemma scheduled_call:
  "cmLoadedCommand_InitialPass Foo_platform Foo_cmd [''x''] Foo_world =
     Ok (True, Foo_cmd) scheduled_world"
  unfolding scheduled_world_def
  by (simp add: cmLoadedCommand_InitialPass_def DoInitialPass_def
      Foo_cmd_def Foo_world_def world0_def Foo_info_def Foo_platform_def rbind_def world_of_def
      strdup_c_str_def Let_def enter_frame leave_frame impls_leave)

lemma scheduled_fields:
  "FinalActions scheduled_world = [0]" "impls scheduled_world 0 = Some (Foo_info, 2)"
  unfolding scheduled_world_def
  by (simp_all add: cmLoadedCommand_InitialPass_def DoInitialPass_def
      Foo_cmd_def Foo_world_def world0_def Foo_info_def Foo_platform_def rbind_def world_of_def
      strdup_c_str_def Let_def enter_frame leave_frame impls_leave AddFinalAction_def
      shared_copy_def)

subsection \<open>The immediate pass on a usable error pointer\<close>

text \<open>
  With no immediate-pass entry point the immediate pass is a success that changes nothing.
  Otherwise, on a table whose error pointer is null or live on entry, the entry point is
  called with the marshalled arguments: a non-zero return code gives success, and schedules
  the deferred pass exactly when the table then has that entry point; a zero return code
  never gives success and schedules nothing, and gives failure with the plugin's error text
  as the command's error whenever the error pointer the plugin left is null or live.
\<close>

lemma immediate_pass_result:
  assumes "Impl c = Some i" "impls w i = Some (info, n)"
  shows "(InitialPass info = None \<longrightarrow> cmLoadedCommand_InitialPass P c args w = Ok (True, c) w)
     \<and> (\<forall>f. InitialPass info = Some f \<and> Error_valid info (cheap_of w) \<longrightarrow>
          (case run_InitialPass P f info (cleared_heap info (cheap_of w)) (Definitions w)
                  (map strdup_c_str args) of
             (rc, info', h, d, raised) \<Rightarrow>
               (rc \<noteq> 0 \<longrightarrow>
                  (\<exists>w'. cmLoadedCommand_InitialPass P c args w = Ok (True, c) w' \<and>
                     FinalActions w' =
                       (if FinalPass info' = None then FinalActions w
                        else FinalActions w @ [i]))) \<and>
               (rc = 0 \<longrightarrow>
                  (\<forall>c' w'. cmLoadedCommand_InitialPass P c args w \<noteq> Ok (True, c') w') \<and>
                  FinalActions (world_of (cmLoadedCommand_InitialPass P c args w)) =
                    FinalActions w) \<and>
               (rc = 0 \<and> Error_valid info' h \<longrightarrow>
                  (\<exists>c' w'. cmLoadedCommand_InitialPass P c args w = Ok (False, c') w' \<and>
                     FinalActions w' = FinalActions w \<and>
                     (case Error info' of None \<Rightarrow> c' = c
                      | Some a \<Rightarrow> h a = Some (CommandError c'))))))"
proof (intro conjI allI impI)
  assume "InitialPass info = None"
  then show "cmLoadedCommand_InitialPass P c args w = Ok (True, c) w"
    using assms by (simp add: cmLoadedCommand_InitialPass_def)
next
  fix f assume a: "InitialPass info = Some f \<and> Error_valid info (cheap_of w)"
  let ?w1 = "w\<lparr>cheap_of := cleared_heap info (cheap_of w)\<rparr>"
  obtain rc info' h d raised where run:
    "run_InitialPass P f info (cleared_heap info (cheap_of w)) (Definitions w)
       (map strdup_c_str args) = (rc, info', h, d, raised)"
    using prod_cases5 by blast
  have "impls ?w1 i = Some (info, n)" using assms by simp
  from DoInitialPass_Ok [OF this, of f P "map strdup_c_str args" rc info' h d raised] a run
  obtain w2 where w2: "DoInitialPass P i (map strdup_c_str args) ?w1 = Ok rc w2"
    "impls w2 = (impls w)(i \<mapsto> (info', n))" "cheap_of w2 = h"
    "FinalActions w2 = FinalActions w"
    by auto
  have eq: "cmLoadedCommand_InitialPass P c args w =
        (if rc \<noteq> 0 then
           (if FinalPass info' \<noteq> None
            then Ok (True, c) (AddFinalAction i (shared_copy (Some i) w2))
            else Ok (True, c) w2)
         else
           (case Error info' of
              None \<Rightarrow> Ok (False, c) w2
            | Some a \<Rightarrow>
                (case h a of
                   None \<Rightarrow> UB (BadRead a) w2
                 | Some s \<Rightarrow> Ok (False, SetError s c) w2)))"
    using assms a w2
    by (simp add: cmLoadedCommand_InitialPass_def clear_error_Ok rbind_Ok
        cong: option.case_cong)
  show "case run_InitialPass P f info (cleared_heap info (cheap_of w)) (Definitions w)
                  (map strdup_c_str args) of
             (rc, info', h, d, raised) \<Rightarrow>
               (rc \<noteq> 0 \<longrightarrow>
                  (\<exists>w'. cmLoadedCommand_InitialPass P c args w = Ok (True, c) w' \<and>
                     FinalActions w' =
                       (if FinalPass info' = None then FinalActions w
                        else FinalActions w @ [i]))) \<and>
               (rc = 0 \<longrightarrow>
                  (\<forall>c' w'. cmLoadedCommand_InitialPass P c args w \<noteq> Ok (True, c') w') \<and>
                  FinalActions (world_of (cmLoadedCommand_InitialPass P c args w)) =
                    FinalActions w) \<and>
               (rc = 0 \<and> Error_valid info' h \<longrightarrow>
                  (\<exists>c' w'. cmLoadedCommand_InitialPass P c args w = Ok (False, c') w' \<and>
                     FinalActions w' = FinalActions w \<and>
                     (case Error info' of None \<Rightarrow> c' = c
                      | Some a \<Rightarrow> h a = Some (CommandError c'))))"
    unfolding run eq using w2
    by (auto simp: AddFinalAction_def shared_copy_def Error_valid_def SetError_def world_of_def
        split: option.splits)
qed


lemma immediate_pass_result_example:
  "cmLoadedCommand_InitialPass Foo_platform Foo_cmd [''x''] Quiet_world =
     Ok (True, Foo_cmd) Quiet_world \<and>
   (\<exists>w'. cmLoadedCommand_InitialPass Foo_platform Foo_cmd [''x''] Foo_world =
            Ok (True, Foo_cmd) w' \<and> FinalActions w' = [0]) \<and>
   (\<exists>c' w'. cmLoadedCommand_InitialPass Foo_platform Foo_cmd [''a'', ''b''] Foo_world =
            Ok (False, c') w' \<and> FinalActions w' = [] \<and> CommandError c' = ''bad arg'') \<and>
   FinalActions (world_of (cmLoadedCommand_InitialPass Foo_platform Foo_cmd [''a'', ''b'']
                             Foo_world)) = []"
  using immediate_pass_result [OF Foo_cmd_Impl Quiet_world_impl, where P = Foo_platform
      and args = "[''x'']"]
    immediate_pass_result [OF Foo_cmd_Impl Foo_world_impl, where P = Foo_platform
      and args = "[''x'']"]
    immediate_pass_result [OF Foo_cmd_Impl Foo_world_impl, where P = Foo_platform
      and args = "[''a'', ''b'']"]
  by (auto simp: Foo_info_def Error_valid_def cleared_heap_def Foo_run_InitialPass
      Foo_world_fields)

section \<open>The claims\<close>

text \<open>
  C2, as the code has it. The claim says that the handlers installed before the guard was
  entered are back once the guarded call has returned. The guard keeps no record of them:
  its destructor passes the null handler to \<open>signal\<close>. A handler of the host's for
  SIGSEGV is gone after one guarded call.
\<close>

theorem guard_does_not_restore:
  "handlers hosted_world SIGSEGV = HostHandler 7 \<and>
   handlers (world_of (DoInitialPass Foo_platform 0 [] hosted_world)) SIGSEGV = NullHandler"
  by (simp add: DoInitialPass_def hosted_world_def Foo_world_def world0_def Foo_info_def
      Foo_platform_def world_of_def Let_def handlers_leave reset_handlers_def fault_signals_def)

text \<open>
  C2, amended: each of the three guarded calls (immediate pass, deferred pass, teardown)
  returns, whatever the foreign code did and whatever signals were trapped meanwhile, with
  the null handler installed for SIGSEGV, for SIGILL and, where it is defined, for SIGBUS,
  and with every other handler as it was. The handlers that were installed before are
  back only where they were the null handler.
\<close>

theorem guard_leaves_null_handlers:
  assumes "impls w i = Some (info, n)"
  shows "(InitialPass info \<noteq> None \<longrightarrow>
            (\<exists>rc w'. DoInitialPass P i argv w = Ok rc w' \<and>
                      handlers w' = reset_handlers P (handlers w)))
       \<and> (FinalPass info \<noteq> None \<longrightarrow>
            (\<exists>w'. DoFinalPass P i w = Ok () w' \<and>
                   handlers w' = reset_handlers P (handlers w)))
       \<and> (Destructor info \<noteq> None \<longrightarrow>
            handlers (world_of (LoadedCommandImpl_delete P i w)) =
              reset_handlers P (handlers w))"
proof (intro conjI impI)
  assume "InitialPass info \<noteq> None"
  then obtain f where f: "InitialPass info = Some f" by auto
  show "\<exists>rc w'. DoInitialPass P i argv w = Ok rc w' \<and>
          handlers w' = reset_handlers P (handlers w)"
    using assms f
    by (simp add: DoInitialPass_def Let_def handlers_leave handlers_fold_raise
        handlers_enter_reset split: prod.splits)
next
  assume "FinalPass info \<noteq> None"
  then obtain f where f: "FinalPass info = Some f" by auto
  show "\<exists>w'. DoFinalPass P i w = Ok () w' \<and> handlers w' = reset_handlers P (handlers w)"
    using assms f
    by (simp add: DoFinalPass_def Let_def handlers_leave handlers_fold_raise
        handlers_enter_reset split: prod.splits)
next
  assume "Destructor info \<noteq> None"
  then obtain f where f: "Destructor info = Some f" by auto
  show "handlers (world_of (LoadedCommandImpl_delete P i w)) = reset_handlers P (handlers w)"
    using assms f by (simp add: handlers_delete handlers_teardown)
qed

theorem guard_leaves_null_handlers_witness:
  "impls hosted_world 0 = Some (Foo_info, 1) \<and> InitialPass Foo_info \<noteq> None \<and>
   FinalPass Foo_info \<noteq> None \<and> Destructor Foo_info \<noteq> None \<and>
   (\<exists>rc w'. DoInitialPass Foo_platform 0 [] hosted_world = Ok rc w' \<and>
        handlers w' = reset_handlers Foo_platform (handlers hosted_world)) \<and>
   (\<exists>w'. DoFinalPass Foo_platform 0 hosted_world = Ok () w' \<and>
        handlers w' = reset_handlers Foo_platform (handlers hosted_world)) \<and>
   handlers (world_of (LoadedCommandImpl_delete Foo_platform 0 hosted_world)) =
     reset_handlers Foo_platform (handlers hosted_world) \<and>
   reset_handlers Foo_platform (handlers hosted_world) SIGILL = NullHandler"
  using guard_leaves_null_handlers [OF hosted_world_impl, of Foo_platform "[]"]
  by (simp add: Foo_info_def hosted_world_impl reset_handlers_def fault_signals_def
      Foo_platform_def)

text \<open>
  C3, as the code has it. The claim names the report variable as the prefix and the
  command name uppercased. The code appends the command name as it was given: after
  \<open>Foo\<close> is loaded, the uppercased name holds nothing and
  \<open>CMAKE_LOADED_COMMAND_Foo\<close> holds the path.
\<close>

theorem report_variable_not_uppercased:
  "fst Foo_load \<and>
   Definitions (snd (snd Foo_load)) (spec_report_variable ''Foo'') = None \<and>
   Definitions (snd (snd Foo_load)) ''CMAKE_LOADED_COMMAND_Foo'' = Some ''plugins/libcmFoo.so''"
  unfolding Foo_load_def spec_report_variable_Foo
  using load_canonical [OF Foo_resolved _ Foo_opens, where f = 10 and c = "\<lparr>CommandError = []\<rparr>"]
  by (simp add: Foo_platform_def cmLoadedCommand_new_def LoadedCommandImpl_new_def Let_def
      AddScriptedCommand_def AddDefinition_def RemoveDefinition_def reportVar_of_def world0_def)

text \<open>
  C3, amended: for every load directive with command name N, the variable is
  \<open>CMAKE_LOADED_COMMAND_\<close> followed by N as given. Removing it is the first thing every
  attempt does. After the attempt it holds the resolved path when the file was found and the
  library opened, and nothing otherwise, whatever it held before; so on success it holds the
  resolved path.
\<close>

theorem report_variable_named_as_given:
  "case cmLoadCommandCommand_InitialPass P c (name # dirs) w of (ok, c', w') \<Rightarrow>
     (\<exists>es. trace w' = trace w @ Removed (''CMAKE_LOADED_COMMAND_'' @ name) # es) \<and>
     Definitions w' (''CMAKE_LOADED_COMMAND_'' @ name) =
       (if resolved_path P name dirs w \<noteq> [] \<and>
           OpenLibrary P (resolved_path P name dirs w) \<noteq> None
        then Some (resolved_path P name dirs w) else None) \<and>
     (ok \<longrightarrow> Definitions w' (''CMAKE_LOADED_COMMAND_'' @ name) =
               Some (resolved_path P name dirs w))"
proof (cases "resolved_path P name dirs w = []")
  case True
  from load_miss [OF this, of c] True show ?thesis
    by (simp add: RemoveDefinition_def reportVar_of_def)
next
  case False
  note nonempty = False
  show ?thesis
  proof (cases "OpenLibrary P (resolved_path P name dirs w)")
    case None
    from load_open_fail [OF refl nonempty None, of c] None show ?thesis
      by (simp add: RemoveDefinition_def reportVar_of_def)
  next
    case (Some lib)
    from load_found_defs [OF refl nonempty Some, of c] nonempty Some
    show ?thesis
      by (auto simp: reportVar_of_def split: prod.splits)
  qed
qed


theorem report_variable_named_as_given_witness:
  "fst Foo_load \<and>
   Definitions (snd (snd Foo_load)) ''CMAKE_LOADED_COMMAND_Foo'' = Some ''plugins/libcmFoo.so'' \<and>
   \<not> fst Foo_load_elsewhere \<and>
   Definitions (snd (snd Foo_load_elsewhere)) ''CMAKE_LOADED_COMMAND_Foo'' = None"
  using report_variable_named_as_given [where P = Foo_platform and c = "\<lparr>CommandError = []\<rparr>" and name = "''Foo''" and dirs = "[''plugins'']" and w = world0]
    report_variable_named_as_given [where P = Foo_platform and c = "\<lparr>CommandError = []\<rparr>" and name = "''Foo''" and dirs = "[''elsewhere'']" and w = world0]
  by (auto simp: Foo_resolved Foo_opens Foo_elsewhere_resolved Foo_load_def Foo_load_elsewhere_def
      Foo_load_ok split: prod.splits)

text \<open>
  C4: when the module file is found and the library opens, the report variable holds the
  resolved full path after the directive, it was set before the first symbol lookup, and it
  stays set when neither initializer symbol is found and the directive fails with
  \<open>No init function found\<close>.
\<close>

theorem reported_path_set_before_symbols:
  assumes "resolved_path P name dirs w = p" "p \<noteq> []" "OpenLibrary P p = Some lib"
  shows "case cmLoadCommandCommand_InitialPass P c (name # dirs) w of (ok, c', w') \<Rightarrow>
     Definitions w' (reportVar_of name) = Some p \<and>
     (\<exists>es. trace w' = trace w @ [Removed (reportVar_of name), Added (reportVar_of name) p,
                                  Lookup lib (name @ ''Init'')] @ es) \<and>
     (GetSymbolAddress P lib (name @ ''Init'') = None \<and>
      GetSymbolAddress P lib (''_'' @ name @ ''Init'') = None \<longrightarrow>
        \<not> ok \<and> CommandError c' = ''Attempt to load command failed. No init function found.'')"
  using assms
proof (cases rule: load_found_cases [where c = c])
  case neither
  then show ?thesis
    using load_no_symbol [OF assms neither, of c]
    by (simp add: AddDefinition_def RemoveDefinition_def SetError_def)
next
  case (found f cmd w5 es)
  from cmLoadedCommand_new_frame [OF found(2)] found(1,3)
  show ?thesis
    by (auto simp: AddScriptedCommand_def AddDefinition_def RemoveDefinition_def)
qed

theorem reported_path_set_before_symbols_witness:
  "resolved_path Bar_platform ''Foo'' [''plugins''] world0 = ''plugins/libcmFoo.so'' \<and>
   OpenLibrary Bar_platform ''plugins/libcmFoo.so'' = Some 1 \<and>
   \<not> fst Bar_load \<and>
   CommandError (fst (snd Bar_load)) = ''Attempt to load command failed. No init function found.'' \<and>
   Definitions (snd (snd Bar_load)) ''CMAKE_LOADED_COMMAND_Foo'' = Some ''plugins/libcmFoo.so''"
  using reported_path_set_before_symbols [OF Bar_resolved _ Bar_opens, where c = "\<lparr>CommandError = []\<rparr>"]
  by (auto simp: Bar_resolved Bar_opens Bar_load_def reportVar_of_def Bar_symbols
      split: prod.splits)

text \<open>
  C5: when no directory of the expanded search path holds the expected module file, the
  directive fails, its message quotes the expected file name (prefix, \<open>cm\<close>, command
  name, suffix), the report variable is unset afterwards, and nothing is registered.
\<close>

theorem missing_module_fails:
  assumes "\<forall>d \<in> set (search_path P dirs). \<not> FileExists P (d @ ''/'' @ moduleName_of name w)"
  shows "case cmLoadCommandCommand_InitialPass P c (name # dirs) w of (ok, c', w') \<Rightarrow>
     \<not> ok \<and>
     CommandError c' = ''Attempt to load command failed from file '' @ [CHR 0x22] @
        (GetRequiredDefinition ''CMAKE_SHARED_MODULE_PREFIX'' w @ ''cm'' @ name @
         GetRequiredDefinition ''CMAKE_SHARED_MODULE_SUFFIX'' w) @ [CHR 0x22] \<and>
     Definitions w' (reportVar_of name) = None \<and>
     ScriptedCommands w' = ScriptedCommands w \<and> impls w' = impls w"
proof -
  have "resolved_path P name dirs w = []"
    using assms by (simp add: resolved_path_def FindFile_empty_iff)
  from load_miss [OF this, of c] show ?thesis
    by (simp add: SetError_def RemoveDefinition_def moduleName_of_def)
qed

theorem missing_module_fails_witness:
  "\<not> fst Foo_load_elsewhere \<and>
   CommandError (fst (snd Foo_load_elsewhere)) =
     ''Attempt to load command failed from file '' @ [CHR 0x22] @ ''libcmFoo.so'' @ [CHR 0x22] \<and>
   Definitions (snd (snd Foo_load_elsewhere)) ''CMAKE_LOADED_COMMAND_Foo'' = None \<and>
   ScriptedCommands (snd (snd Foo_load_elsewhere)) = []"
  using missing_module_fails [OF Foo_elsewhere, where c = "\<lparr>CommandError = []\<rparr>"]
  by (auto simp: Foo_load_elsewhere_def reportVar_of_def GetRequiredDefinition_def world0_def
      split: prod.splits)

text \<open>
  C6: on an opened library the canonical name \<open>NInit\<close> is looked up first; the alternate
  \<open>_NInit\<close> is looked up exactly when the canonical lookup gave nothing; when both give
  nothing the directive fails with \<open>No init function found\<close> and registers nothing; a
  canonical symbol that is found is the initializer that is called.
\<close>

theorem init_symbol_resolution:
  assumes "resolved_path P name dirs w = p" "p \<noteq> []" "OpenLibrary P p = Some lib"
  shows "case cmLoadCommandCommand_InitialPass P c (name # dirs) w of (ok, c', w') \<Rightarrow>
     lookups_of (trace w') = lookups_of (trace w) @
       (case GetSymbolAddress P lib (name @ ''Init'') of
          Some f \<Rightarrow> [Lookup lib (name @ ''Init'')]
        | None \<Rightarrow> [Lookup lib (name @ ''Init''), Lookup lib (''_'' @ name @ ''Init'')]) \<and>
     (GetSymbolAddress P lib (name @ ''Init'') = None \<and>
      GetSymbolAddress P lib (''_'' @ name @ ''Init'') = None \<longrightarrow>
        \<not> ok \<and> CommandError c' = ''Attempt to load command failed. No init function found.'' \<and>
        ScriptedCommands w' = ScriptedCommands w \<and> impls w' = impls w \<and>
        next_impl w' = next_impl w) \<and>
     (\<forall>f. GetSymbolAddress P lib (name @ ''Init'') = Some f \<longrightarrow>
        ok \<and> last (trace w') = Called InitCall f (guard_view w) (LastName w))"
  using assms
proof (cases rule: load_found_cases [where c = c])
  case neither
  then show ?thesis
    using load_no_symbol [OF assms neither, of c]
    by (simp add: AddDefinition_def RemoveDefinition_def SetError_def lookups_of_def)
next
  case (found f cmd w5 es)
  from cmLoadedCommand_new_frame [OF found(2)] found(1,3)
  show ?thesis
    by (auto simp: AddScriptedCommand_def AddDefinition_def RemoveDefinition_def lookups_of_def
        guard_view_def)
qed

theorem init_symbol_resolution_witness:
  "lookups_of (trace (snd (snd Foo_load))) = [Lookup 1 ''FooInit''] \<and> fst Foo_load \<and>
   last (trace (snd (snd Foo_load))) = Called InitCall 10 [NullHandler, NullHandler, NullHandler] None \<and>
   lookups_of (trace (snd (snd Bar_load))) = [Lookup 1 ''FooInit'', Lookup 1 ''_FooInit''] \<and>
   \<not> fst Bar_load \<and> ScriptedCommands (snd (snd Bar_load)) = [] \<and>
   CommandError (fst (snd Bar_load)) = ''Attempt to load command failed. No init function found.''"
  using init_symbol_resolution [OF Bar_resolved _ Bar_opens, where c = "\<lparr>CommandError = []\<rparr>"]
   init_symbol_resolution [OF Foo_resolved _ Foo_opens, where c = "\<lparr>CommandError = []\<rparr>"]
  by (auto simp: Bar_load_def Foo_load_def Bar_symbols Foo_symbols lookups_of_def
      world0_def guard_view_def split: prod.splits)

text \<open>
  C1, on the code. The first call fails and the plugin stores \<open>bad arg\<close>. The second call
  releases that block and leaves the pointer in the table as it was; the plugin fails
  again and stores nothing; the failure branch finds the pointer not null and hands the
  released block to \<open>SetError\<close>. The error of the first call is what the second call reads.
\<close>

theorem second_call_reads_freed_error:
  "(case first_call of
      Ok r w1 \<Rightarrow> r = (False, Foo_cmd\<lparr>CommandError := ''bad arg''\<rparr>) \<and>
                 cheap_of w1 0 = Some ''bad arg''
    | UB f w1 \<Rightarrow> False) \<and>
   (case second_call of
      Ok r w2 \<Rightarrow> False
    | UB f w2 \<Rightarrow> f = BadRead 0 \<and> cheap_of w2 0 = None \<and>
                 map_option (\<lambda>(info, n). Error info) (impls w2 0) = Some (Some 0))"
  by (simp add: first_call_def second_call_def cmLoadedCommand_InitialPass_def DoInitialPass_def
      Foo_cmd_def Foo_world_def world0_def Foo_info_def Foo_platform_def rbind_def world_of_def
      c_free_def strdup_c_str_def Let_def SetError_def enter_frame leave_frame impls_leave)

text \<open>
  C8, on the code. The plugin returns non-zero on the argument list \<open>x\<close>, so the claim has
  the immediate pass succeed on it. After a call that failed with an error text, the call
  on \<open>x\<close> releases the text, succeeds and leaves the pointer in the table; the same call
  once more passes that pointer to \<open>free\<close> a second time, before it reaches the entry
  point: no foreign call is made and no success is returned.
\<close>

theorem third_call_frees_twice:
  "(\<forall>f info h d. fst (run_InitialPass Foo_platform f info h d [''x'']) = 1) \<and>
   (case succeeding_call of
      Ok r w2 \<Rightarrow> r = (True, Foo_cmd) \<and> cheap_of w2 0 = None \<and>
                 map_option (\<lambda>(info, n). Error info) (impls w2 0) = Some (Some 0)
    | UB f w2 \<Rightarrow> False) \<and>
   (case third_call of
      Ok r w3 \<Rightarrow> False
    | UB f w3 \<Rightarrow> f = BadFree 0 \<and> trace w3 = trace (world_of succeeding_call))"
  by (simp add: first_call_def succeeding_call_def third_call_def
      cmLoadedCommand_InitialPass_def DoInitialPass_def
      Foo_cmd_def Foo_world_def world0_def Foo_info_def Foo_platform_def rbind_def world_of_def
      c_free_def strdup_c_str_def Let_def SetError_def enter_frame leave_frame impls_leave
      AddFinalAction_def shared_copy_def)

text \<open>
  C9: the immediate-pass, deferred-pass and teardown calls each run with
  \<open>TrapsForSignals\<close> installed and \<open>LastName\<close> set to the table's name (\<open>????\<close> for a
  table without one); the constructor calls the initializer with the signal table and
  \<open>LastName\<close> as it found them and installs nothing.
\<close>

theorem foreign_calls_guarded_but_init:
  assumes "impls w i = Some (info, n)"
  shows "(\<forall>f. InitialPass info = Some f \<longrightarrow>
            (\<exists>rc w'. DoInitialPass P i argv w = Ok rc w' \<and>
               trace w' = trace w @
                 [Called InitialPassCall f (guarded_view P w) (Some (guard_tag info))]))
       \<and> (\<forall>f. FinalPass info = Some f \<longrightarrow>
            (\<exists>w'. DoFinalPass P i w = Ok () w' \<and>
               trace w' = trace w @
                 [Called FinalPassCall f (guarded_view P w) (Some (guard_tag info))]))
       \<and> (\<forall>f. Destructor info = Some f \<longrightarrow>
            trace (world_of (LoadedCommandImpl_delete P i w)) = trace w @
                 [Called DestructorCall f (guarded_view P w) (Some (guard_tag info))])
       \<and> trace (snd (LoadedCommandImpl_new P init w)) = trace w @
                 [Called InitCall init (guard_view w) (LastName w)]
       \<and> handlers (snd (LoadedCommandImpl_new P init w)) = handlers w
       \<and> LastName (snd (LoadedCommandImpl_new P init w)) = LastName w"
proof (intro conjI allI impI)
  fix f assume f: "InitialPass info = Some f"
  obtain rc info' h d raised where
    "run_InitialPass P f info (cheap_of w) (Definitions w) argv = (rc, info', h, d, raised)"
    using prod_cases5 by blast
  from DoInitialPass_Ok [OF assms f this]
  show "\<exists>rc w'. DoInitialPass P i argv w = Ok rc w' \<and>
               trace w' = trace w @
                 [Called InitialPassCall f (guarded_view P w) (Some (guard_tag info))]"
    by blast
next
  fix f assume f: "FinalPass info = Some f"
  obtain info' h d raised where
    "run_FinalPass P f info (cheap_of w) (Definitions w) = (info', h, d, raised)"
    using prod_cases4 by blast
  from DoFinalPass_Ok [OF assms f this]
  show "\<exists>w'. DoFinalPass P i w = Ok () w' \<and>
               trace w' = trace w @
                 [Called FinalPassCall f (guarded_view P w) (Some (guard_tag info))]"
    by blast
next
  fix f assume f: "Destructor info = Some f"
  obtain info' h raised where
    "run_Destructor P f info (cheap_of w) = (info', h, raised)"
    using prod_cases3 by blast
  from teardown_Some [OF assms f this]
  show "trace (world_of (LoadedCommandImpl_delete P i w)) = trace w @
                 [Called DestructorCall f (guarded_view P w) (Some (guard_tag info))]"
    by (simp add: trace_delete)
qed (simp_all add: LoadedCommandImpl_new_def Let_def split: prod.splits)

theorem foreign_calls_guarded_but_init_witness:
  "impls Foo_world 0 = Some (Foo_info, 1) \<and>
   (\<exists>rc w'. DoInitialPass Foo_platform 0 [] Foo_world = Ok rc w' \<and>
      trace w' = [Called InitialPassCall 11 [TrapsHandler, TrapsHandler, TrapsHandler] (Some ''Foo'')]) \<and>
   (\<exists>w'. DoFinalPass Foo_platform 0 Foo_world = Ok () w' \<and>
      trace w' = [Called FinalPassCall 12 [TrapsHandler, TrapsHandler, TrapsHandler] (Some ''Foo'')]) \<and>
   trace (world_of (LoadedCommandImpl_delete Foo_platform 0 Foo_world)) =
      [Called DestructorCall 13 [TrapsHandler, TrapsHandler, TrapsHandler] (Some ''Foo'')] \<and>
   trace (snd (LoadedCommandImpl_new Foo_platform 10 Foo_world)) =
      [Called InitCall 10 [NullHandler, NullHandler, NullHandler] None]"
  using foreign_calls_guarded_but_init [OF Foo_world_impl, where P = Foo_platform and argv = "[]"
      and init = 10]
  by (simp add: Foo_world_impl Foo_info_def guarded_view_def guard_tag_def guard_view_def
      Foo_sigbus Foo_world_fields)

text \<open>
  C7: cloning a command \<open>k\<close> times gives \<open>k\<close> commands on the same table, adds \<open>k\<close> to
  its use count and calls no initializer. Destroying fewer commands than the table has
  holders calls no teardown and leaves the table in place; destroying as many as it has
  holders calls the teardown entry point once when the table has one, at the last of them,
  and then the table is gone.
\<close>

theorem teardown_once_at_last_release:
  assumes "Impl c = Some i" "impls w i = Some (info, m)" "0 < m" "Clone_n k c w = (cs, w1)"
  shows "length cs = k \<and> (\<forall>q \<in> set cs. Impl q = Some i) \<and>
     impls w1 i = Some (info, m + k) \<and> trace w1 = trace w \<and> next_impl w1 = next_impl w \<and>
     (\<forall>qs. (\<forall>q \<in> set qs. Impl q = Some i) \<and> length qs < m + k \<longrightarrow>
        (\<exists>w2. delete_all P qs w1 = Ok () w2 \<and> trace w2 = trace w \<and>
              impls w2 i = Some (info, m + k - length qs))) \<and>
     (\<forall>qs. (\<forall>q \<in> set qs. Impl q = Some i) \<and> length qs = m + k \<longrightarrow>
        teardowns (trace (world_of (delete_all P qs w1))) =
          teardowns (trace w) + (if Destructor info = None then 0 else 1) \<and>
        (\<forall>w3. delete_all P qs w1 = Ok () w3 \<longrightarrow> impls w3 i = None))"
proof -
  from Clone_n_frame [OF assms(1,2,4)]
  have f: "length cs = k" "\<forall>q \<in> set cs. Impl q = Some i" "impls w1 i = Some (info, m + k)"
    "trace w1 = trace w" "next_impl w1 = next_impl w"
    by simp_all
  have keep: "\<exists>w2. delete_all P qs w1 = Ok () w2 \<and> trace w2 = trace w \<and>
              impls w2 i = Some (info, m + k - length qs)"
    if "\<forall>q \<in> set qs. Impl q = Some i" "length qs < m + k" for qs
    using delete_all_keep [OF that(1) f(3) that(2), of P] f(4) by auto
  have last: "teardowns (trace (world_of (delete_all P qs w1))) =
          teardowns (trace w) + (if Destructor info = None then 0 else 1) \<and>
        (\<forall>w3. delete_all P qs w1 = Ok () w3 \<longrightarrow> impls w3 i = None)"
    if "\<forall>q \<in> set qs. Impl q = Some i" "length qs = m + k" for qs
    using delete_all_last [OF that(1) f(3) that(2), of P] assms(3) f(4) by simp
  show ?thesis using f keep last by blast
qed


theorem teardown_once_at_last_release_witness:
  "Impl Foo_cmd = Some 0 \<and> impls Foo_world 0 = Some (Foo_info, 1) \<and>
   (\<exists>w2. delete_all Foo_platform [Foo_cmd, Foo_cmd] (snd (Clone_n 2 Foo_cmd Foo_world)) =
            Ok () w2 \<and> trace w2 = [] \<and> impls w2 0 = Some (Foo_info, 1)) \<and>
   teardowns (trace (world_of (delete_all Foo_platform [Foo_cmd, Foo_cmd, Foo_cmd]
                                 (snd (Clone_n 2 Foo_cmd Foo_world))))) = 1"
proof -
  have c: "Clone_n 2 Foo_cmd Foo_world =
             (fst (Clone_n 2 Foo_cmd Foo_world), snd (Clone_n 2 Foo_cmd Foo_world))"
    by simp
  have pos: "(0::nat) < 1" by simp
  note t = teardown_once_at_last_release [OF Foo_cmd_Impl Foo_world_impl pos c,
      where P = Foo_platform]
  from t have keep: "(\<forall>q \<in> set [Foo_cmd, Foo_cmd]. Impl q = Some 0) \<and>
        length [Foo_cmd, Foo_cmd] < 1 + 2 \<longrightarrow>
        (\<exists>w2. delete_all Foo_platform [Foo_cmd, Foo_cmd] (snd (Clone_n 2 Foo_cmd Foo_world)) =
                 Ok () w2 \<and> trace w2 = trace Foo_world \<and>
              impls w2 0 = Some (Foo_info, 1 + 2 - length [Foo_cmd, Foo_cmd]))"
    by blast
  from t have last: "(\<forall>q \<in> set [Foo_cmd, Foo_cmd, Foo_cmd]. Impl q = Some 0) \<and>
        length [Foo_cmd, Foo_cmd, Foo_cmd] = 1 + 2 \<longrightarrow>
        teardowns (trace (world_of (delete_all Foo_platform [Foo_cmd, Foo_cmd, Foo_cmd]
                                      (snd (Clone_n 2 Foo_cmd Foo_world))))) =
          teardowns (trace Foo_world) + (if Destructor Foo_info = None then 0 else 1)"
    by blast
  show ?thesis
    using keep last
    by (simp add: Foo_cmd_Impl Foo_world_impl Foo_world_fields Foo_info_def teardowns_def)
qed



text \<open>
  C10: an immediate pass that schedules the deferred pass adds one holder to the table, the
  pending action. Destroying every command that held the table before calls no teardown and
  leaves the table with that one holder; running the action then keeps it so, and
  discarding the action is what calls the teardown.
\<close>

theorem deferred_action_keeps_state_alive:
  assumes "Impl c = Some i" "impls w i = Some (info, m)"
    "cmLoadedCommand_InitialPass P c args w = Ok (True, c') w1"
    "FinalActions w1 \<noteq> FinalActions w"
  shows "FinalActions w1 = FinalActions w @ [i] \<and>
     (\<exists>info1. impls w1 i = Some (info1, Suc m) \<and>
        (\<forall>qs. (\<forall>q \<in> set qs. Impl q = Some i) \<and> length qs \<le> m \<longrightarrow>
           (\<exists>w2. delete_all P qs w1 = Ok () w2 \<and>
                 teardowns (trace w2) = teardowns (trace w) \<and>
                 FinalActions w2 = FinalActions w1 \<and>
                 impls w2 i = Some (info1, Suc m - length qs) \<and>
                 (length qs = m \<longrightarrow>
                    (\<exists>w3 info3. FinalAction_run P i w2 = Ok () w3 \<and>
                        teardowns (trace w3) = teardowns (trace w) \<and>
                        impls w3 i = Some (info3, 1)) \<and>
                    teardowns (trace (world_of (FinalAction_discard P i w2))) =
                      teardowns (trace w) + (if Destructor info1 = None then 0 else 1)))))"
proof -
  from InitialPass_scheduled [OF assms] obtain info1 e where
    s: "FinalActions w1 = FinalActions w @ [i]" "impls w1 i = Some (info1, Suc m)"
       "FinalPass info1 \<noteq> None" "trace w1 = trace w @ [e]" "teardowns [e] = 0"
    by blast
  have tw1: "teardowns (trace w1) = teardowns (trace w)"
    using s(4,5) by (simp add: teardowns_append)
  have main: "\<exists>w2. delete_all P qs w1 = Ok () w2 \<and>
                 teardowns (trace w2) = teardowns (trace w) \<and>
                 FinalActions w2 = FinalActions w1 \<and>
                 impls w2 i = Some (info1, Suc m - length qs) \<and>
                 (length qs = m \<longrightarrow>
                    (\<exists>w3 info3. FinalAction_run P i w2 = Ok () w3 \<and>
                        teardowns (trace w3) = teardowns (trace w) \<and>
                        impls w3 i = Some (info3, 1)) \<and>
                    teardowns (trace (world_of (FinalAction_discard P i w2))) =
                      teardowns (trace w) + (if Destructor info1 = None then 0 else 1))"
    if qs: "\<forall>q \<in> set qs. Impl q = Some i" "length qs \<le> m" for qs
  proof -
    from qs(2) have lt: "length qs < Suc m" by simp
    from delete_all_keep [OF qs(1) s(2) lt, of P] obtain w2 where
      w2: "delete_all P qs w1 = Ok () w2" "impls w2 i = Some (info1, Suc m - length qs)"
          "trace w2 = trace w1" "FinalActions w2 = FinalActions w1"
      by auto
    have last: "(\<exists>w3 info3. FinalAction_run P i w2 = Ok () w3 \<and>
                        teardowns (trace w3) = teardowns (trace w) \<and>
                        impls w3 i = Some (info3, 1)) \<and>
                    teardowns (trace (world_of (FinalAction_discard P i w2))) =
                      teardowns (trace w) + (if Destructor info1 = None then 0 else 1)"
      if len: "length qs = m"
    proof -
      have one: "impls w2 i = Some (info1, 1)" using w2(2) len by simp
      obtain f where f: "FinalPass info1 = Some f" using s(3) by auto
      obtain info' h d raised where
        "run_FinalPass P f info1 (cheap_of w2) (Definitions w2) = (info', h, d, raised)"
        using prod_cases4 by blast
      from DoFinalPass_Ok [OF one f this] obtain w3 where
        w3: "DoFinalPass P i w2 = Ok () w3" "impls w3 = (impls w2)(i \<mapsto> (info', 1))"
          "trace w3 = trace w2 @
             [Called FinalPassCall f (guarded_view P w2) (Some (guard_tag info1))]"
        by auto
      have run: "\<exists>w3 info3. FinalAction_run P i w2 = Ok () w3 \<and>
                        teardowns (trace w3) = teardowns (trace w) \<and>
                        impls w3 i = Some (info3, 1)"
        using w3 w2(3) tw1
        by (simp add: FinalAction_run_def teardowns_append) (simp add: teardowns_def)
      have "teardowns (trace (world_of (FinalAction_discard P i w2))) =
              teardowns (trace w2) + (if Destructor info1 = None then 0 else 1)"
        using teardowns_delete [OF one, of P] one
        by (simp add: world_of_rbind_discard release_last [where info = info1 and m = 1])
      then show ?thesis using run w2(3) tw1 by simp
    qed
    show ?thesis using w2 tw1 last by auto
  qed
  show ?thesis using s(1,2) main by blast
qed


theorem deferred_action_keeps_state_alive_witness:
  "cmLoadedCommand_InitialPass Foo_platform Foo_cmd [''x''] Foo_world =
     Ok (True, Foo_cmd) scheduled_world \<and>
   FinalActions scheduled_world = [0] \<and> FinalActions Foo_world = [] \<and>
   (\<exists>w2. delete_all Foo_platform [Foo_cmd] scheduled_world = Ok () w2 \<and>
      teardowns (trace w2) = 0 \<and> impls w2 0 = Some (Foo_info, 1) \<and>
      (\<exists>w3 info3. FinalAction_run Foo_platform 0 w2 = Ok () w3 \<and>
          teardowns (trace w3) = 0 \<and> impls w3 0 = Some (info3, 1)) \<and>
      teardowns (trace (world_of (FinalAction_discard Foo_platform 0 w2))) = 1)"
proof -
  have ne: "FinalActions scheduled_world \<noteq> FinalActions Foo_world"
    by (simp add: scheduled_fields Foo_world_fields)
  note t = deferred_action_keeps_state_alive [OF Foo_cmd_Impl Foo_world_impl scheduled_call ne]
  from t obtain info1 where
    i1: "impls scheduled_world 0 = Some (info1, Suc 1)" and
    q: "\<forall>qs. (\<forall>q \<in> set qs. Impl q = Some 0) \<and> length qs \<le> 1 \<longrightarrow>
           (\<exists>w2. delete_all Foo_platform qs scheduled_world = Ok () w2 \<and>
                 teardowns (trace w2) = teardowns (trace Foo_world) \<and>
                 FinalActions w2 = FinalActions scheduled_world \<and>
                 impls w2 0 = Some (info1, Suc 1 - length qs) \<and>
                 (length qs = 1 \<longrightarrow>
                    (\<exists>w3 info3. FinalAction_run Foo_platform 0 w2 = Ok () w3 \<and>
                        teardowns (trace w3) = teardowns (trace Foo_world) \<and>
                        impls w3 0 = Some (info3, 1)) \<and>
                    teardowns (trace (world_of (FinalAction_discard Foo_platform 0 w2))) =
                      teardowns (trace Foo_world) + (if Destructor info1 = None then 0 else 1)))"
    by blast
  have info1: "info1 = Foo_info" using i1 by (simp add: scheduled_fields)
  from q [rule_format, of "[Foo_cmd]"] show ?thesis
    by (auto simp: info1 Foo_cmd_Impl scheduled_call scheduled_fields Foo_world_fields
        Foo_info_def teardowns_def simp del: delete_all.simps)
qed


end
